theory Spec2Isabelle
  imports Main
begin

section \<open>Python values handled by data.py\<close>

text \<open>
  A torch tensor is a scalar (a 0-dim tensor) or a sequence of sub-tensors along its
  first dimension. A cell of the dataframe is a text, a missing value or a number.
\<close>

datatype tensor = Scalar int | Tensor "tensor list"

datatype cell = Text string | NaN | Number int

datatype error =
    KeyError cell
  | IndexError
  | FileNotFoundError
  | UnpicklingError
  | LibraryError string

type_synonym 'v dict = "(string \<times> 'v) list"

text \<open>\<^verbatim>\<open>d[k]\<close> on a dict: a missing key raises KeyError.\<close>

definition dict_get :: "'v dict \<Rightarrow> string \<Rightarrow> error + 'v" where
  "dict_get d k = (case map_of d k of None \<Rightarrow> Inl (KeyError (Text k)) | Some v \<Rightarrow> Inr v)"

text \<open>\<^verbatim>\<open>xs[i]\<close> on a sequence: negative positions count from the end, a position out
  of range raises IndexError.\<close>

definition py_index :: "'a list \<Rightarrow> int \<Rightarrow> error + 'a" where
  "py_index xs i =
     (if 0 \<le> i \<and> i < int (length xs) then Inr (xs ! nat i)
      else if i < 0 \<and> - int (length xs) \<le> i then Inr (xs ! nat (int (length xs) + i))
      else Inl IndexError)"

text \<open>\<^verbatim>\<open>t.shape[0]\<close> and \<^verbatim>\<open>t.size(0)\<close>: a 0-dim tensor has no first dimension.\<close>

fun shape0 :: "tensor \<Rightarrow> error + nat" where
  "shape0 (Scalar v) = Inl IndexError"
| "shape0 (Tensor xs) = Inr (length xs)"

text \<open>\<^verbatim>\<open>t[i]\<close> for an integer position.\<close>

fun tensor_index :: "tensor \<Rightarrow> int \<Rightarrow> error + tensor" where
  "tensor_index (Scalar v) i = Inl IndexError"
| "tensor_index (Tensor xs) i = py_index xs i"

text \<open>\<^verbatim>\<open>t[:]\<close>: the whole tensor; a 0-dim tensor cannot be sliced.\<close>

fun tensor_slice_all :: "tensor \<Rightarrow> error + tensor" where
  "tensor_slice_all (Scalar v) = Inl IndexError"
| "tensor_slice_all (Tensor xs) = Inr (Tensor xs)"

text \<open>A comprehension or generator over a sequence whose body may raise: the first
  failure ends it.\<close>

fun map_err :: "('a \<Rightarrow> error + 'b) \<Rightarrow> 'a list \<Rightarrow> error + 'b list" where
  "map_err f [] = Inr []"
| "map_err f (x # xs) =
     (case f x of
        Inl e \<Rightarrow> Inl e
      | Inr v \<Rightarrow> (case map_err f xs of Inl e \<Rightarrow> Inl e | Inr vs \<Rightarrow> Inr (v # vs)))"

text \<open>A 0-dim tensor, and a flat numeric sequence of a given length (a 1-dim tensor).\<close>

fun is_scalar :: "tensor \<Rightarrow> bool" where
  "is_scalar (Scalar v) = True"
| "is_scalar (Tensor xs) = False"

fun is_sequence :: "nat \<Rightarrow> tensor \<Rightarrow> bool" where
  "is_sequence n (Scalar v) = False"
| "is_sequence n (Tensor xs) = (length xs = n \<and> list_all is_scalar xs)"

text \<open>A tensor whose rows are all flat sequences of a given length.\<close>

definition rows_are_sequences :: "nat \<Rightarrow> tensor \<Rightarrow> bool" where
  "rows_are_sequences m t =
     (case t of Scalar v \<Rightarrow> False | Tensor xs \<Rightarrow> list_all (is_sequence m) xs)"

section \<open>The external collaborators\<close>

text \<open>
  The tokenizer, the SQuAD processor and converter and the dataframe reader are third-party
  code. They are parameters of the model: a record of functions that may fail.
\<close>

record call_args =
  add_special_tokens :: bool
  max_length :: nat
  truncation :: bool
  padding :: bool
  return_attention_mask :: bool
  return_token_type_ids :: bool
  return_tensors :: string

record batch_encoding =
  input_ids :: tensor
  attention_mask :: tensor
  token_type_ids :: tensor

text \<open>A tokenizer object: \<open>class_name\<close> is \<^verbatim>\<open>type(tokenizer).__name__\<close>, \<open>call\<close> is
  \<^verbatim>\<open>tokenizer(text, text_pair, ...)\<close>.\<close>

record tokenizer =
  class_name :: string
  call :: "call_args \<Rightarrow> cell list \<Rightarrow> cell list \<Rightarrow> error + batch_encoding"

record from_pretrained_args =
  do_lower_case :: bool
  use_fast :: "bool option"
  local_files_only :: bool

record convert_args =
  max_seq_length :: nat
  doc_stride_arg :: nat
  max_query_length :: nat
  is_training :: bool
  return_dataset :: string
  threads :: nat

text \<open>The mapping that \<^verbatim>\<open>torch.save\<close> writes in \<^verbatim>\<open>CorpusQA.preprocess\<close>; a
  \<^verbatim>\<open>TensorDataset\<close> is the tuple of its tensors.\<close>

record ('ex, 'ft) qa_cache =
  features :: "'ft list"
  dataset :: "tensor list"
  examples :: "'ex list"

text \<open>
  A file holds raw text or one serialized object. Serialization is idealised: a file
  written by \<^verbatim>\<open>torch.save\<close> or \<^verbatim>\<open>pickle.dump\<close> holds the object itself, and writing
  never fails.
\<close>

datatype ('ex, 'ft) content =
    Raw string
  | TorchSaved "('ex, 'ft) qa_cache"
  | Pickled "tensor dict"

type_synonym ('ex, 'ft) fs = "string \<Rightarrow> ('ex, 'ft) content option"

text \<open>The dataframe of \<^verbatim>\<open>pd.read_csv(path, sep="\t", header=None, names=header)\<close> is
  the list of its rows under the three columns premise, hypothesis, label.\<close>

record ('ex, 'ft) libs =
  from_pretrained :: "string \<Rightarrow> from_pretrained_args \<Rightarrow> error + tokenizer"
  get_train_examples :: "('ex, 'ft) fs \<Rightarrow> string \<Rightarrow> string \<Rightarrow> error + 'ex list"
  get_dev_examples :: "('ex, 'ft) fs \<Rightarrow> string \<Rightarrow> string \<Rightarrow> error + 'ex list"
  squad_convert_examples_to_features ::
    "'ex list \<Rightarrow> tokenizer \<Rightarrow> convert_args \<Rightarrow> error + ('ft list \<times> tensor list)"
  read_csv :: "('ex, 'ft) fs \<Rightarrow> string \<Rightarrow> error + (cell \<times> cell \<times> cell) list"

section \<open>CorpusSC\<close>

record CorpusSC =
  max_sequence_length :: nat
  tokenizer_sc :: tokenizer
  label_dict :: "int dict"
  data_sc :: "tensor dict"

definition the_label_dict :: "int dict" where
  "the_label_dict = [(''contradiction'', 0), (''entailment'', 1), (''neutral'', 2)]"

text \<open>\<^verbatim>\<open>self.label_dict[label]\<close>: only a text can be a key of the dictionary.\<close>

fun label_lookup :: "int dict \<Rightarrow> cell \<Rightarrow> error + int" where
  "label_lookup d (Text s) =
     (case map_of d s of None \<Rightarrow> Inl (KeyError (Text s)) | Some v \<Rightarrow> Inr v)"
| "label_lookup d c = Inl (KeyError c)"

text \<open>\<^verbatim>\<open>[self.label_dict[label] for label in label_list]\<close>: stops at the first label
  that is not a key.\<close>

definition map_labels :: "int dict \<Rightarrow> cell list \<Rightarrow> error + int list" where
  "map_labels d label_list = map_err (label_lookup d) label_list"

definition sc_call_args :: "nat \<Rightarrow> call_args" where
  "sc_call_args msl =
     \<lparr>add_special_tokens = True, max_length = msl, truncation = True, padding = True,
      return_attention_mask = True, return_token_type_ids = True, return_tensors = ''pt''\<rparr>"

text \<open>\<^verbatim>\<open>CorpusSC.preprocess(self, path, file)\<close>; of \<open>self\<close> it reads the tokenizer,
  \<open>max_sequence_length\<close> and \<open>label_dict\<close>.\<close>

definition preprocess_sc ::
  "('ex, 'ft) libs \<Rightarrow> tokenizer \<Rightarrow> nat \<Rightarrow> int dict \<Rightarrow> ('ex, 'ft) fs \<Rightarrow> string \<Rightarrow> string
     \<Rightarrow> error + tensor dict" where
  "preprocess_sc L tok msl ld fs path file =
     (case read_csv L fs path of
        Inl e \<Rightarrow> Inl e
      | Inr df \<Rightarrow>
          (let premise_list = map fst df;
               hypothesis_list = map (\<lambda>r. fst (snd r)) df;
               label_list = map (\<lambda>r. snd (snd r)) df
           in case call tok (sc_call_args msl) premise_list hypothesis_list of
                Inl e \<Rightarrow> Inl e
              | Inr ids \<Rightarrow>
                  (case map_labels ld label_list of
                     Inl e \<Rightarrow> Inl e
                   | Inr labels \<Rightarrow>
                       Inr [(''input_ids'', input_ids ids),
                            (''token_type_ids'', attention_mask ids),
                            (''attention_mask'', token_type_ids ids),
                            (''label'', Tensor (map Scalar labels))])))"

definition cached_data_file :: "string \<Rightarrow> tokenizer \<Rightarrow> string" where
  "cached_data_file path tok = path @ ''_'' @ class_name tok @ ''.pickle''"

fun pickle_load :: "('ex, 'ft) content \<Rightarrow> error + tensor dict" where
  "pickle_load (Pickled d) = Inr d"
| "pickle_load c = Inl UnpicklingError"

text \<open>\<^verbatim>\<open>CorpusSC.__init__(self, path, file, model_name, local_files_only)\<close>: the result
  and the file system it leaves.\<close>

definition CorpusSC_init ::
  "('ex, 'ft) libs \<Rightarrow> ('ex, 'ft) fs \<Rightarrow> string \<Rightarrow> string \<Rightarrow> string \<Rightarrow> bool
     \<Rightarrow> (error + CorpusSC) \<times> ('ex, 'ft) fs" where
  "CorpusSC_init L fs path file model_name lfo =
     (case from_pretrained L model_name
             \<lparr>do_lower_case = False, use_fast = None, local_files_only = lfo\<rparr> of
        Inl e \<Rightarrow> (Inl e, fs)
      | Inr tok \<Rightarrow>
          (let self = \<lparr>max_sequence_length = 128, tokenizer_sc = tok,
                       label_dict = the_label_dict, data_sc = []\<rparr>
           in case fs (cached_data_file path tok) of
                Some c \<Rightarrow>
                  (case pickle_load c of
                     Inl e \<Rightarrow> (Inl e, fs)
                   | Inr d \<Rightarrow> (Inr (self\<lparr>data_sc := d\<rparr>), fs))
              | None \<Rightarrow>
                  (case preprocess_sc L (tokenizer_sc self) (max_sequence_length self)
                          (label_dict self) fs path file of
                     Inl e \<Rightarrow> (Inl e, fs)
                   | Inr d \<Rightarrow>
                       (Inr (self\<lparr>data_sc := d\<rparr>),
                        fs(cached_data_file path tok \<mapsto> Pickled d)))))"

text \<open>\<^verbatim>\<open>CorpusSC.__len__\<close>\<close>

definition len_sc :: "CorpusSC \<Rightarrow> error + nat" where
  "len_sc self =
     (case dict_get (data_sc self) ''input_ids'' of Inl e \<Rightarrow> Inl e | Inr t \<Rightarrow> shape0 t)"

text \<open>\<^verbatim>\<open>self.data[key][id]\<close>\<close>

definition field_at :: "tensor dict \<Rightarrow> string \<Rightarrow> int \<Rightarrow> error + tensor" where
  "field_at d key i = (case dict_get d key of Inl e \<Rightarrow> Inl e | Inr t \<Rightarrow> tensor_index t i)"

text \<open>\<^verbatim>\<open>CorpusSC.__getitem__\<close>: the four entries are evaluated in the order written.\<close>

definition getitem_sc :: "CorpusSC \<Rightarrow> int \<Rightarrow> error + tensor dict" where
  "getitem_sc self i =
     (case field_at (data_sc self) ''input_ids'' i of
        Inl e \<Rightarrow> Inl e
      | Inr a \<Rightarrow>
     (case field_at (data_sc self) ''token_type_ids'' i of
        Inl e \<Rightarrow> Inl e
      | Inr b \<Rightarrow>
     (case field_at (data_sc self) ''attention_mask'' i of
        Inl e \<Rightarrow> Inl e
      | Inr c \<Rightarrow>
     (case field_at (data_sc self) ''label'' i of
        Inl e \<Rightarrow> Inl e
      | Inr l \<Rightarrow>
          Inr [(''input_ids'', a), (''token_type_ids'', b),
               (''attention_mask'', c), (''label'', l)]))))"

section \<open>CorpusQA\<close>

record ('ex, 'ft) CorpusQA =
  doc_stride :: nat
  max_query_len :: nat
  max_seq_len :: nat
  model_name :: string
  tokenizer_qa :: tokenizer
  dataset_qa :: "tensor list"
  examples_qa :: "'ex list"
  features_qa :: "'ft list"
  data_qa :: "tensor dict"

text \<open>\<^verbatim>\<open>s.split(sep)\<close> for a one-character separator: always at least one part.\<close>

fun split_on :: "char \<Rightarrow> string \<Rightarrow> string list" where
  "split_on c [] = [[]]"
| "split_on c (x # xs) =
     (if x = c then [] # split_on c xs
      else (case split_on c xs of [] \<Rightarrow> [[x]] | p # ps \<Rightarrow> (x # p) # ps))"

text \<open>\<^verbatim>\<open>sep.join(parts)\<close>\<close>

fun join_with :: "string \<Rightarrow> string list \<Rightarrow> string" where
  "join_with sep [] = []"
| "join_with sep [p] = p"
| "join_with sep (p # q # ps) = p @ sep @ join_with sep (q # ps)"

text \<open>\<^verbatim>\<open>os.path.join(a, b)\<close> (posix).\<close>

definition os_path_join :: "string \<Rightarrow> string \<Rightarrow> string" where
  "os_path_join a b =
     (if b \<noteq> [] \<and> hd b = CHR ''/'' then b
      else if a = [] \<or> last a = CHR ''/'' then a @ b
      else a @ ''/'' @ b)"

definition filename :: "string \<Rightarrow> string" where
  "filename file = last (split_on CHR ''/'' file)"

definition data_dir :: "string \<Rightarrow> string" where
  "data_dir file = join_with ''/'' (butlast (split_on CHR ''/'' file))"

definition cached_features_file :: "tokenizer \<Rightarrow> string \<Rightarrow> string" where
  "cached_features_file tok file =
     os_path_join (data_dir file) (''cached_'' @ class_name tok @ ''_'' @ filename file)"

fun torch_load :: "('ex, 'ft) content \<Rightarrow> error + ('ex, 'ft) qa_cache" where
  "torch_load (TorchSaved b) = Inr b"
| "torch_load c = Inl UnpicklingError"

text \<open>\<^verbatim>\<open>CorpusQA.preprocess(self, file, evaluate)\<close>; of \<open>self\<close> it reads the
  tokenizer, \<open>max_seq_len\<close>, \<open>doc_stride\<close> and \<open>max_query_len\<close>. It returns
  (dataset, examples, features) and the file system it leaves.\<close>

definition preprocess_qa ::
  "('ex, 'ft) libs \<Rightarrow> tokenizer \<Rightarrow> nat \<Rightarrow> nat \<Rightarrow> nat \<Rightarrow> ('ex, 'ft) fs \<Rightarrow> string \<Rightarrow> bool
     \<Rightarrow> (error + (tensor list \<times> 'ex list \<times> 'ft list)) \<times> ('ex, 'ft) fs" where
  "preprocess_qa L tok msl ds mql fs file evaluate =
     (case fs (cached_features_file tok file) of
        Some c \<Rightarrow>
          (case torch_load c of
             Inl e \<Rightarrow> (Inl e, fs)
           | Inr features_and_dataset \<Rightarrow>
               (Inr (dataset features_and_dataset, examples features_and_dataset,
                     features features_and_dataset), fs))
      | None \<Rightarrow>
          (case (if evaluate then get_dev_examples L fs (data_dir file) (filename file)
                 else get_train_examples L fs (data_dir file) (filename file)) of
             Inl e \<Rightarrow> (Inl e, fs)
           | Inr exs \<Rightarrow>
               (case squad_convert_examples_to_features L exs tok
                       \<lparr>max_seq_length = msl, doc_stride_arg = ds, max_query_length = mql,
                        is_training = (\<not> evaluate), return_dataset = ''pt'', threads = 1\<rparr> of
                  Inl e \<Rightarrow> (Inl e, fs)
                | Inr (fts, dset) \<Rightarrow>
                    (Inr (dset, exs, fts),
                     fs(cached_features_file tok file \<mapsto>
                          TorchSaved \<lparr>features = fts, dataset = dset, examples = exs\<rparr>)))))"

text \<open>\<^verbatim>\<open>dataset[:]\<close> and \<^verbatim>\<open>dataset[id]\<close> on a TensorDataset: the tuple of every
  tensor sliced or indexed.\<close>

definition dataset_slice_all :: "tensor list \<Rightarrow> error + tensor list" where
  "dataset_slice_all dset = map_err tensor_slice_all dset"

definition dataset_getitem :: "tensor list \<Rightarrow> int \<Rightarrow> error + tensor list" where
  "dataset_getitem dset i = map_err (\<lambda>t. tensor_index t i) dset"

text \<open>\<^verbatim>\<open>len(dataset)\<close> on a TensorDataset: \<^verbatim>\<open>self.tensors[0].size(0)\<close>.\<close>

definition len_dataset :: "tensor list \<Rightarrow> error + nat" where
  "len_dataset dset = (case py_index dset 0 of Inl e \<Rightarrow> Inl e | Inr t \<Rightarrow> shape0 t)"

definition qa_keys :: "string list" where
  "qa_keys = [''input_ids'', ''attention_mask'', ''token_type_ids'',
              ''answer_start'', ''answer_end'']"

text \<open>\<^verbatim>\<open>{key: self.dataset[:][i] for i, key in enumerate([...])}\<close>\<close>

fun build_data :: "tensor list \<Rightarrow> (nat \<times> string) list \<Rightarrow> error + tensor dict" where
  "build_data dset [] = Inr []"
| "build_data dset ((i, key) # rest) =
     (case dataset_slice_all dset of
        Inl e \<Rightarrow> Inl e
      | Inr tup \<Rightarrow>
          (case py_index tup (int i) of
             Inl e \<Rightarrow> Inl e
           | Inr t \<Rightarrow>
               (case build_data dset rest of
                  Inl e \<Rightarrow> Inl e
                | Inr d \<Rightarrow> Inr ((key, t) # d))))"

text \<open>\<^verbatim>\<open>CorpusQA.__init__(self, path, evaluate, model_name, local_files_only)\<close>\<close>

definition CorpusQA_init ::
  "('ex, 'ft) libs \<Rightarrow> ('ex, 'ft) fs \<Rightarrow> string \<Rightarrow> bool \<Rightarrow> string \<Rightarrow> bool
     \<Rightarrow> (error + ('ex, 'ft) CorpusQA) \<times> ('ex, 'ft) fs" where
  "CorpusQA_init L fs path evaluate mname lfo =
     (case from_pretrained L mname
             \<lparr>do_lower_case = False, use_fast = Some False, local_files_only = lfo\<rparr> of
        Inl e \<Rightarrow> (Inl e, fs)
      | Inr tok \<Rightarrow>
          (case preprocess_qa L tok 384 128 64 fs path evaluate of
             (Inl e, fs') \<Rightarrow> (Inl e, fs')
           | (Inr (dset, exs, fts), fs') \<Rightarrow>
               (case build_data dset (enumerate 0 qa_keys) of
                  Inl e \<Rightarrow> (Inl e, fs')
                | Inr d \<Rightarrow>
                    (Inr \<lparr>doc_stride = 128, max_query_len = 64, max_seq_len = 384,
                          model_name = mname, tokenizer_qa = tok, dataset_qa = dset,
                          examples_qa = exs, features_qa = fts, data_qa = d\<rparr>, fs'))))"

text \<open>\<^verbatim>\<open>CorpusQA.__len__\<close>\<close>

definition len_qa :: "('ex, 'ft) CorpusQA \<Rightarrow> error + nat" where
  "len_qa self = len_dataset (dataset_qa self)"

text \<open>\<^verbatim>\<open>self.dataset[id][k]\<close>\<close>

definition dataset_at :: "tensor list \<Rightarrow> int \<Rightarrow> int \<Rightarrow> error + tensor" where
  "dataset_at dset i k =
     (case dataset_getitem dset i of Inl e \<Rightarrow> Inl e | Inr tup \<Rightarrow> py_index tup k)"

text \<open>\<^verbatim>\<open>CorpusQA.__getitem__\<close>: the five entries are evaluated in the order written.\<close>

definition getitem_qa :: "('ex, 'ft) CorpusQA \<Rightarrow> int \<Rightarrow> error + tensor dict" where
  "getitem_qa self i =
     (case dataset_at (dataset_qa self) i 0 of
        Inl e \<Rightarrow> Inl e
      | Inr a \<Rightarrow>
     (case dataset_at (dataset_qa self) i 1 of
        Inl e \<Rightarrow> Inl e
      | Inr b \<Rightarrow>
     (case dataset_at (dataset_qa self) i 2 of
        Inl e \<Rightarrow> Inl e
      | Inr c \<Rightarrow>
     (case dataset_at (dataset_qa self) i 3 of
        Inl e \<Rightarrow> Inl e
      | Inr s \<Rightarrow>
     (case dataset_at (dataset_qa self) i 4 of
        Inl e \<Rightarrow> Inl e
      | Inr t \<Rightarrow>
          Inr [(''input_ids'', a), (''attention_mask'', b), (''token_type_ids'', c),
               (''answer_start'', s), (''answer_end'', t)])))))"

section \<open>A reference tokenizer\<close>

text \<open>
  The batch contract of the tokenizer call as the library documents it, over any encoder of
  one pair into (token id, segment id) tokens, special tokens included: with
  \<^verbatim>\<open>truncation=True\<close> an encoded pair keeps at most \<open>max_length\<close> tokens; with
  \<^verbatim>\<open>padding=True\<close> every row is padded to the longest row of the batch (the strategy
  the library calls "longest"; padding to \<open>max_length\<close> is requested by
  \<^verbatim>\<open>padding="max_length"\<close>, which data.py does not pass). The attention mask is 1 on
  tokens and 0 on padding. A cell that is not a text is rejected.
\<close>

fun cell_text :: "cell \<Rightarrow> error + string" where
  "cell_text (Text s) = Inr s"
| "cell_text c = Inl (LibraryError ''ValueError'')"

definition pad_to :: "nat \<Rightarrow> 'a \<Rightarrow> 'a list \<Rightarrow> 'a list" where
  "pad_to n x xs = xs @ replicate (n - length xs) x"

definition longest :: "'a list list \<Rightarrow> nat" where
  "longest rows = foldr max (map length rows) 0"

definition matrix :: "int list list \<Rightarrow> tensor" where
  "matrix rows = Tensor (map (\<lambda>r. Tensor (map Scalar r)) rows)"

definition hf_call ::
  "(string \<Rightarrow> string \<Rightarrow> (int \<times> int) list) \<Rightarrow> int \<Rightarrow> call_args \<Rightarrow> cell list \<Rightarrow> cell list
     \<Rightarrow> error + batch_encoding" where
  "hf_call enc pad_id args text text_pair =
     (case map_err cell_text text of
        Inl e \<Rightarrow> Inl e
      | Inr ps \<Rightarrow>
          (case map_err cell_text text_pair of
             Inl e \<Rightarrow> Inl e
           | Inr hs \<Rightarrow>
               (let encoded = map (\<lambda>(p, h). enc p h) (zip ps hs);
                    rows = (if truncation args then map (take (max_length args)) encoded
                            else encoded);
                    width = longest rows;
                    fill = (\<lambda>x r. if padding args then pad_to width x r else r)
                in Inr \<lparr>input_ids = matrix (map (\<lambda>r. fill pad_id (map fst r)) rows),
                        attention_mask = matrix (map (\<lambda>r. fill 0 (map (\<lambda>t. 1) r)) rows),
                        token_type_ids = matrix (map (\<lambda>r. fill 0 (map snd r)) rows)\<rparr>)))"

section \<open>A small instance of the collaborators\<close>

text \<open>
  Concrete collaborators on which the model can be run: a character-level encoder under the
  reference tokenizer, a reader of tab-separated lines, and a SQuAD stand-in that makes one
  example per non-blank line and lays the tensors out as the library's converter does
  (input ids, attention masks and segment ids of \<open>max_seq_length\<close> entries per row, then
  one scalar per row for each remaining tensor).
\<close>

definition demo_encode :: "string \<Rightarrow> string \<Rightarrow> (int \<times> int) list" where
  "demo_encode p h =
     [(0, 0)] @ map (\<lambda>c. (5, 0)) p @ [(2, 0), (2, 0)] @ map (\<lambda>c. (5, 0)) h @ [(2, 0)]"

definition demo_tokenizer :: "bool \<Rightarrow> tokenizer" where
  "demo_tokenizer fast =
     \<lparr>class_name = (if fast then ''XLMRobertaTokenizerFast'' else ''XLMRobertaTokenizer''),
      call = hf_call demo_encode 1\<rparr>"

definition demo_from_pretrained :: "string \<Rightarrow> from_pretrained_args \<Rightarrow> error + tokenizer" where
  "demo_from_pretrained name args =
     (if name = ''xlm-roberta-base'' then Inr (demo_tokenizer (use_fast args \<noteq> Some False))
      else Inl (LibraryError ''OSError''))"

definition non_blank_lines :: "string \<Rightarrow> string list" where
  "non_blank_lines s = filter (\<lambda>l. l \<noteq> []) (split_on (CHR 0x0A) s)"

definition to_cell :: "string \<Rightarrow> cell" where
  "to_cell s = (if s = [] then NaN else Text s)"

fun demo_row :: "string \<Rightarrow> error + (cell \<times> cell \<times> cell)" where
  "demo_row l =
     (case split_on (CHR 0x09) l of
        [a, b, c] \<Rightarrow> Inr (to_cell a, to_cell b, to_cell c)
      | other \<Rightarrow> Inl (LibraryError ''ParserError''))"

definition demo_read_csv ::
  "(string, nat) fs \<Rightarrow> string \<Rightarrow> error + (cell \<times> cell \<times> cell) list" where
  "demo_read_csv fs path =
     (case fs path of
        None \<Rightarrow> Inl FileNotFoundError
      | Some (Raw s) \<Rightarrow> map_err demo_row (non_blank_lines s)
      | Some other \<Rightarrow> Inl (LibraryError ''UnicodeDecodeError''))"

definition demo_get_examples :: "(string, nat) fs \<Rightarrow> string \<Rightarrow> string \<Rightarrow> error + string list" where
  "demo_get_examples fs dir name =
     (case fs (os_path_join dir name) of
        None \<Rightarrow> Inl FileNotFoundError
      | Some (Raw s) \<Rightarrow> Inr (non_blank_lines s)
      | Some other \<Rightarrow> Inl (LibraryError ''JSONDecodeError''))"

definition demo_convert ::
  "string list \<Rightarrow> tokenizer \<Rightarrow> convert_args \<Rightarrow> error + (nat list \<times> tensor list)" where
  "demo_convert exs tok args =
     (let n = length exs;
          wide = (\<lambda>v. Tensor (replicate n (Tensor (replicate (max_seq_length args) (Scalar v)))));
          flat = (\<lambda>v. Tensor (replicate n (Scalar v)))
      in Inr ([0..<n],
              if is_training args
              then [wide 5, wide 1, wide 0, flat 0, flat 0, flat 0, wide 0, flat 0]
              else [wide 5, wide 1, wide 0, flat 0, flat 0, wide 0]))"

definition demo_libs :: "(string, nat) libs" where
  "demo_libs =
     \<lparr>from_pretrained = demo_from_pretrained,
      get_train_examples = demo_get_examples,
      get_dev_examples = demo_get_examples,
      squad_convert_examples_to_features = demo_convert,
      read_csv = demo_read_csv\<rparr>"

definition demo_tsv :: string where
  "demo_tsv = ''A man is eating.'' @ [CHR 0x09] @ ''A man is eating food.'' @ [CHR 0x09]
     @ ''entailment'' @ [CHR 0x0A]"

definition tiny_tsv :: string where
  "tiny_tsv = ''a'' @ [CHR 0x09] @ ''b'' @ [CHR 0x09] @ ''neutral'' @ [CHR 0x0A]
     @ ''ab'' @ [CHR 0x09] @ ''c'' @ [CHR 0x09] @ ''contradiction'' @ [CHR 0x0A]"

definition tiny_data :: "tensor dict" where
  "tiny_data =
     [(''input_ids'', matrix [[0, 5, 2, 2, 5, 2, 1], [0, 5, 5, 2, 2, 5, 2]]),
      (''token_type_ids'', matrix [[1, 1, 1, 1, 1, 1, 0], [1, 1, 1, 1, 1, 1, 1]]),
      (''attention_mask'', matrix [[0, 0, 0, 0, 0, 0, 0], [0, 0, 0, 0, 0, 0, 0]]),
      (''label'', Tensor [Scalar 2, Scalar 0])]"

definition bad_tsv :: string where
  "bad_tsv = ''a'' @ [CHR 0x09] @ ''b'' @ [CHR 0x09] @ ''unknown'' @ [CHR 0x0A]"

definition demo_fs :: "(string, nat) fs" where
  "demo_fs = [''d/pairs.tsv'' \<mapsto> Raw demo_tsv, ''d/tiny.tsv'' \<mapsto> Raw tiny_tsv,
              ''d/bad.tsv'' \<mapsto> Raw bad_tsv,
              ''d/train.json'' \<mapsto> Raw ''q1'',
              ''d/empty.tsv'' \<mapsto> Raw [], ''d/empty.json'' \<mapsto> Raw []]"

definition tiny_sc :: CorpusSC where
  "tiny_sc = \<lparr>max_sequence_length = 128, tokenizer_sc = demo_tokenizer True,
              label_dict = the_label_dict, data_sc = tiny_data\<rparr>"

definition demo_dataset :: "tensor list" where
  "demo_dataset =
     [Tensor (replicate 1 (Tensor (replicate 384 (Scalar 5)))),
      Tensor (replicate 1 (Tensor (replicate 384 (Scalar 1)))),
      Tensor (replicate 1 (Tensor (replicate 384 (Scalar 0)))),
      Tensor (replicate 1 (Scalar 0)),
      Tensor (replicate 1 (Scalar 0)),
      Tensor (replicate 1 (Scalar 0)),
      Tensor (replicate 1 (Tensor (replicate 384 (Scalar 0)))),
      Tensor (replicate 1 (Scalar 0))]"

definition demo_qa :: "(string, nat) CorpusQA" where
  "demo_qa =
     \<lparr>doc_stride = 128, max_query_len = 64, max_seq_len = 384,
      model_name = ''xlm-roberta-base'', tokenizer_qa = demo_tokenizer False,
      dataset_qa = demo_dataset, examples_qa = [''q1''], features_qa = [0],
      data_qa = [(''input_ids'', demo_dataset ! 0),
                 (''attention_mask'', demo_dataset ! 1),
                 (''token_type_ids'', demo_dataset ! 2),
                 (''answer_start'', demo_dataset ! 3),
                 (''answer_end'', demo_dataset ! 4)]\<rparr>"

text \<open>
  Collaborators that raise on empty input, as the libraries do: the tokenizer raises on an
  empty batch of pairs, and the SQuAD processor, which parses the whole file as JSON,
  raises on an empty text. On any other input they are the collaborators above.
\<close>

definition strict_tokenizer :: "bool \<Rightarrow> tokenizer" where
  "strict_tokenizer fast =
     \<lparr>class_name = class_name (demo_tokenizer fast),
      call = (\<lambda>args text text_pair.
                if text = [] then Inl IndexError
                else hf_call demo_encode 1 args text text_pair)\<rparr>"

definition strict_from_pretrained :: "string \<Rightarrow> from_pretrained_args \<Rightarrow> error + tokenizer" where
  "strict_from_pretrained name args =
     (if name = ''xlm-roberta-base'' then Inr (strict_tokenizer (use_fast args \<noteq> Some False))
      else Inl (LibraryError ''OSError''))"

definition strict_get_examples :: "(string, nat) fs \<Rightarrow> string \<Rightarrow> string \<Rightarrow> error + string list" where
  "strict_get_examples fs dir name =
     (case fs (os_path_join dir name) of
        None \<Rightarrow> Inl FileNotFoundError
      | Some (Raw s) \<Rightarrow>
          (if s = [] then Inl (LibraryError ''JSONDecodeError'') else Inr (non_blank_lines s))
      | Some other \<Rightarrow> Inl (LibraryError ''JSONDecodeError''))"

definition strict_libs :: "(string, nat) libs" where
  "strict_libs =
     \<lparr>from_pretrained = strict_from_pretrained,
      get_train_examples = strict_get_examples,
      get_dev_examples = strict_get_examples,
      squad_convert_examples_to_features = demo_convert,
      read_csv = demo_read_csv\<rparr>"

text \<open>Two datasets with no rows.\<close>

definition empty_sc :: CorpusSC where
  "empty_sc = \<lparr>max_sequence_length = 128, tokenizer_sc = demo_tokenizer True,
               label_dict = the_label_dict,
               data_sc = [(''input_ids'', Tensor []), (''token_type_ids'', Tensor []),
                          (''attention_mask'', Tensor []), (''label'', Tensor [])]\<rparr>"

definition empty_qa :: "(string, nat) CorpusQA" where
  "empty_qa =
     \<lparr>doc_stride = 128, max_query_len = 64, max_seq_len = 384,
      model_name = ''xlm-roberta-base'', tokenizer_qa = demo_tokenizer False,
      dataset_qa = [Tensor [], Tensor [], Tensor [], Tensor [], Tensor [], Tensor []],
      examples_qa = [], features_qa = [],
      data_qa = [(''input_ids'', Tensor []), (''attention_mask'', Tensor []),
                 (''token_type_ids'', Tensor []), (''answer_start'', Tensor []),
                 (''answer_end'', Tensor [])]\<rparr>"

section \<open>Failing comprehensions and the label dictionary\<close>

lemma map_err_char:
  "map_err f xs =
     (case filter (\<lambda>x. isl (f x)) xs of
        [] \<Rightarrow> Inr (map (\<lambda>x. projr (f x)) xs)
      | x # rest \<Rightarrow> Inl (projl (f x)))"
proof (induction xs)
  case Nil
  show ?case by simp
next
  case (Cons a xs)
  show ?case
  proof (cases "f a")
    case (Inl e)
    then show ?thesis by simp
  next
    case (Inr v)
    then show ?thesis using Cons.IH by (simp split: list.splits)
  qed
qed

lemma map_err_Inr_length: "map_err f xs = Inr ys \<Longrightarrow> length ys = length xs"
  by (simp add: map_err_char split: list.splits) auto

lemma map_err_Inr_nth:
  "map_err f xs = Inr ys \<Longrightarrow> i < length xs \<Longrightarrow> f (xs ! i) = Inr (ys ! i)"
proof (induction xs arbitrary: ys i)
  case Nil
  then show ?case by simp
next
  case (Cons a xs)
  then show ?case
    by (cases i) (auto split: sum.splits)
qed

lemma label_lookup_Inr:
  "label_lookup the_label_dict c = Inr v \<longleftrightarrow>
     (c = Text ''contradiction'' \<and> v = 0) \<or> (c = Text ''entailment'' \<and> v = 1)
       \<or> (c = Text ''neutral'' \<and> v = 2)"
  by (cases c) (auto simp: the_label_dict_def)

lemma label_lookup_Inl:
  "label_lookup the_label_dict c = Inl e \<longleftrightarrow>
     (c \<notin> {Text ''contradiction'', Text ''entailment'', Text ''neutral''} \<and> e = KeyError c)"
  by (cases c) (auto simp: the_label_dict_def)

lemma CorpusSC_init_miss:
  assumes "from_pretrained L mname
             \<lparr>do_lower_case = False, use_fast = None, local_files_only = lfo\<rparr> = Inr tok"
    and "fs (cached_data_file path tok) = None"
  shows "CorpusSC_init L fs path file mname lfo =
           (case preprocess_sc L tok 128 the_label_dict fs path file of
              Inl e \<Rightarrow> (Inl e, fs)
            | Inr d \<Rightarrow>
                (Inr \<lparr>max_sequence_length = 128, tokenizer_sc = tok,
                      label_dict = the_label_dict, data_sc = d\<rparr>,
                 fs(cached_data_file path tok \<mapsto> Pickled d)))"
  using assms by (simp add: CorpusSC_init_def split: sum.splits)

lemma CorpusSC_init_hit:
  assumes "from_pretrained L mname
             \<lparr>do_lower_case = False, use_fast = None, local_files_only = lfo\<rparr> = Inr tok"
    and "fs (cached_data_file path tok) = Some (Pickled d)"
  shows "CorpusSC_init L fs path file mname lfo =
           (Inr \<lparr>max_sequence_length = 128, tokenizer_sc = tok,
                 label_dict = the_label_dict, data_sc = d\<rparr>, fs)"
  using assms by (simp add: CorpusSC_init_def)

lemma preprocess_sc_steps:
  assumes "read_csv L fs path = Inr df"
    and "call tok (sc_call_args msl) (map fst df) (map (\<lambda>r. fst (snd r)) df) = Inr ids"
  shows "preprocess_sc L tok msl ld fs path file =
           (case map_labels ld (map (\<lambda>r. snd (snd r)) df) of
              Inl e \<Rightarrow> Inl e
            | Inr labels \<Rightarrow>
                Inr [(''input_ids'', input_ids ids),
                     (''token_type_ids'', attention_mask ids),
                     (''attention_mask'', token_type_ids ids),
                     (''label'', Tensor (map Scalar labels))])"
  using assms by (simp add: preprocess_sc_def)

lemma map_labels_valid:
  assumes "\<forall>c \<in> set cs. c \<in> {Text ''contradiction'', Text ''entailment'', Text ''neutral''}"
  shows "\<exists>ls. map_labels the_label_dict cs = Inr ls \<and> length ls = length cs
           \<and> set ls \<subseteq> {0, 1, 2}
           \<and> (\<forall>i < length cs. label_lookup the_label_dict (cs ! i) = Inr (ls ! i))"
proof -
  have none: "filter (\<lambda>c. isl (label_lookup the_label_dict c)) cs = []"
  proof -
    have "\<not> isl (label_lookup the_label_dict c)" if "c \<in> set cs" for c
      using assms that by (auto simp: the_label_dict_def)
    then show ?thesis by (simp add: filter_empty_conv)
  qed
  define ls where "ls = map (\<lambda>c. projr (label_lookup the_label_dict c)) cs"
  have eq: "map_labels the_label_dict cs = Inr ls"
    by (simp add: map_labels_def map_err_char none ls_def)
  have nth: "label_lookup the_label_dict (cs ! i) = Inr (ls ! i)" if "i < length cs" for i
    using eq that unfolding map_labels_def by (rule map_err_Inr_nth)
  have "v \<in> {0, 1, 2}" if "v \<in> set ls" for v
  proof -
    from that obtain i where i: "i < length ls" "ls ! i = v"
      by (metis in_set_conv_nth)
    have "i < length cs" using i(1) by (simp add: ls_def)
    then have "label_lookup the_label_dict (cs ! i) = Inr v"
      using nth [of i] i(2) by simp
    then show ?thesis by (auto simp: label_lookup_Inr)
  qed
  then have sub: "set ls \<subseteq> {0, 1, 2}" by blast
  have len: "length ls = length cs" by (simp add: ls_def)
  show ?thesis using eq nth sub len by blast
qed

lemma map_labels_unknown:
  assumes "\<exists>c \<in> set cs. c \<notin> {Text ''contradiction'', Text ''entailment'', Text ''neutral''}"
  shows "map_labels the_label_dict cs =
           Inl (KeyError (hd (filter (\<lambda>c. c \<notin> {Text ''contradiction'', Text ''entailment'',
                                                 Text ''neutral''}) cs)))"
proof -
  have isl: "isl (label_lookup the_label_dict c) \<longleftrightarrow>
               c \<notin> {Text ''contradiction'', Text ''entailment'', Text ''neutral''}" for c
    by (cases c) (auto simp: the_label_dict_def)
  obtain x rest where f: "filter (\<lambda>c. c \<notin> {Text ''contradiction'', Text ''entailment'',
                                             Text ''neutral''}) cs = x # rest"
    using assms by (cases "filter (\<lambda>c. c \<notin> {Text ''contradiction'', Text ''entailment'',
                                             Text ''neutral''}) cs") (auto simp: filter_empty_conv)
  have "x \<in> set (filter (\<lambda>c. c \<notin> {Text ''contradiction'', Text ''entailment'',
                                     Text ''neutral''}) cs)"
    unfolding f by simp
  then have "x \<notin> {Text ''contradiction'', Text ''entailment'', Text ''neutral''}"
    by simp
  then have "label_lookup the_label_dict x = Inl (KeyError x)"
    by (simp add: label_lookup_Inl)
  then show ?thesis
    using f by (simp add: map_labels_def map_err_char isl del: insert_iff)
qed

section \<open>The pair-classification dataset\<close>

text \<open>
  Claim C1. In \<^verbatim>\<open>CorpusSC.preprocess\<close> the assembled dataset swaps the names of the
  segment ids and the attention mask: whenever preprocessing returns a dataset, the entry
  named \<open>token_type_ids\<close> is the tokenizer's \<open>attention_mask\<close> tensor and the entry named
  \<open>attention_mask\<close> is the tokenizer's \<open>token_type_ids\<close> tensor, for the call the code
  makes on the premise and hypothesis columns of the file (\<open>input_ids\<close> is stored under its
  own name).
\<close>

theorem preprocess_sc_swaps_mask_and_segments:
  assumes "preprocess_sc L tok msl ld fs path file = Inr d"
  shows "\<exists>df ids. read_csv L fs path = Inr df
           \<and> call tok (sc_call_args msl) (map fst df) (map (\<lambda>r. fst (snd r)) df) = Inr ids
           \<and> dict_get d ''input_ids'' = Inr (input_ids ids)
           \<and> dict_get d ''token_type_ids'' = Inr (attention_mask ids)
           \<and> dict_get d ''attention_mask'' = Inr (token_type_ids ids)"
  using assms
  by (auto simp: preprocess_sc_def dict_get_def Let_def split: sum.splits)

theorem preprocess_sc_swaps_mask_and_segments_witness:
  "preprocess_sc demo_libs (demo_tokenizer True) 128 the_label_dict demo_fs ''d/tiny.tsv''
       ''tiny.tsv'' = Inr tiny_data
   \<and> (\<exists>df ids. read_csv demo_libs demo_fs ''d/tiny.tsv'' = Inr df
           \<and> call (demo_tokenizer True) (sc_call_args 128) (map fst df)
                 (map (\<lambda>r. fst (snd r)) df) = Inr ids
           \<and> dict_get tiny_data ''input_ids'' = Inr (input_ids ids)
           \<and> dict_get tiny_data ''token_type_ids'' = Inr (attention_mask ids)
           \<and> dict_get tiny_data ''attention_mask'' = Inr (token_type_ids ids))"
proof -
  have run: "preprocess_sc demo_libs (demo_tokenizer True) 128 the_label_dict demo_fs
               ''d/tiny.tsv'' ''tiny.tsv'' = Inr tiny_data"
    by code_simp
  show ?thesis
    using run preprocess_sc_swaps_mask_and_segments [OF run] by simp
qed

text \<open>
  Claim C2. For a valid pair-classification file with N rows, every label text being one of
  contradiction, entailment, neutral: the construction succeeds, \<open>length()\<close> is N, and the
  \<open>label\<close> field holds, row by row, the value of the label text in the fixed dictionary
  (contradiction 0, entailment 1, neutral 2), hence a value in {0,1,2}. The file is valid
  when it is not cached yet, the reader delivers its rows and the tokenizer returns an
  encoding with one row of input ids per pair.
\<close>

theorem CorpusSC_length_and_labels:
  assumes tok: "from_pretrained L mname
                  \<lparr>do_lower_case = False, use_fast = None, local_files_only = lfo\<rparr> = Inr tok"
    and miss: "fs (cached_data_file path tok) = None"
    and rows: "read_csv L fs path = Inr df"
    and valid: "\<forall>r \<in> set df.
                  snd (snd r) \<in> {Text ''contradiction'', Text ''entailment'', Text ''neutral''}"
    and enc: "call tok (sc_call_args 128) (map fst df) (map (\<lambda>r. fst (snd r)) df) = Inr ids"
    and one_row_per_pair: "shape0 (input_ids ids) = Inr (length df)"
  shows "\<exists>self fs' ls.
           CorpusSC_init L fs path file mname lfo = (Inr self, fs')
           \<and> len_sc self = Inr (length df)
           \<and> dict_get (data_sc self) ''label'' = Inr (Tensor (map Scalar ls))
           \<and> length ls = length df
           \<and> set ls \<subseteq> {0, 1, 2}
           \<and> (\<forall>i < length df.
                  label_lookup the_label_dict (snd (snd (df ! i))) = Inr (ls ! i)
                  \<and> field_at (data_sc self) ''label'' (int i) = Inr (Scalar (ls ! i)))
           \<and> label_lookup the_label_dict (Text ''contradiction'') = Inr 0
           \<and> label_lookup the_label_dict (Text ''entailment'') = Inr 1
           \<and> label_lookup the_label_dict (Text ''neutral'') = Inr 2"
proof -
  let ?labels = "map (\<lambda>r. snd (snd r)) df"
  have "\<forall>c \<in> set ?labels.
          c \<in> {Text ''contradiction'', Text ''entailment'', Text ''neutral''}"
    using valid by auto
  from map_labels_valid [OF this] obtain ls where
    ls: "map_labels the_label_dict ?labels = Inr ls"
    and len: "length ls = length df"
    and sub: "set ls \<subseteq> {0, 1, 2}"
    and nth: "\<forall>i < length df. label_lookup the_label_dict (?labels ! i) = Inr (ls ! i)"
    by auto
  define d where "d = [(''input_ids'', input_ids ids),
                       (''token_type_ids'', attention_mask ids),
                       (''attention_mask'', token_type_ids ids),
                       (''label'', Tensor (map Scalar ls))]"
  define self where "self = \<lparr>max_sequence_length = 128, tokenizer_sc = tok,
                               label_dict = the_label_dict, data_sc = d\<rparr>"
  have pre: "preprocess_sc L tok 128 the_label_dict fs path file = Inr d"
    by (simp add: preprocess_sc_steps [OF rows enc] ls d_def)
  have init: "CorpusSC_init L fs path file mname lfo =
                (Inr self, fs(cached_data_file path tok \<mapsto> Pickled d))"
    by (simp add: CorpusSC_init_miss [where fs = fs and path = path, OF tok miss] pre self_def)
  have length: "len_sc self = Inr (length df)"
    by (simp add: len_sc_def self_def d_def dict_get_def one_row_per_pair)
  have label: "dict_get (data_sc self) ''label'' = Inr (Tensor (map Scalar ls))"
    by (simp add: self_def d_def dict_get_def)
  have item: "field_at (data_sc self) ''label'' (int i) = Inr (Scalar (ls ! i))"
    if "i < length df" for i
    using that len by (simp add: field_at_def label py_index_def)
  have each: "label_lookup the_label_dict (snd (snd (df ! i))) = Inr (ls ! i)"
    if "i < length df" for i
    using nth that by simp
  have keys: "label_lookup the_label_dict (Text ''contradiction'') = Inr 0
              \<and> label_lookup the_label_dict (Text ''entailment'') = Inr 1
              \<and> label_lookup the_label_dict (Text ''neutral'') = Inr 2"
    by (simp add: the_label_dict_def)
  show ?thesis
    using init length label len sub item each keys by blast
qed

theorem CorpusSC_length_and_labels_witness:
  "read_csv demo_libs demo_fs ''d/pairs.tsv'' =
     Inr [(Text ''A man is eating.'', Text ''A man is eating food.'', Text ''entailment'')]
   \<and> (\<exists>self fs' ls.
         CorpusSC_init demo_libs demo_fs ''d/pairs.tsv'' ''pairs.tsv'' ''xlm-roberta-base'' False
           = (Inr self, fs')
         \<and> len_sc self = Inr 1
         \<and> dict_get (data_sc self) ''label'' = Inr (Tensor (map Scalar ls))
         \<and> ls = [1])"
proof -
  let ?df = "[(Text ''A man is eating.'', Text ''A man is eating food.'', Text ''entailment'')]"
  let ?tok = "demo_tokenizer True"
  let ?call = "call ?tok (sc_call_args 128) (map fst ?df) (map (\<lambda>r. fst (snd r)) ?df)"
  have tok: "from_pretrained demo_libs ''xlm-roberta-base''
               \<lparr>do_lower_case = False, use_fast = None, local_files_only = False\<rparr> = Inr ?tok"
    by (simp add: demo_libs_def demo_from_pretrained_def)
  have miss: "demo_fs (cached_data_file ''d/pairs.tsv'' ?tok) = None"
    by (simp add: demo_fs_def cached_data_file_def demo_tokenizer_def)
  have rows: "read_csv demo_libs demo_fs ''d/pairs.tsv'' = Inr ?df"
    by code_simp
  have valid: "\<forall>r \<in> set ?df.
                 snd (snd r) \<in> {Text ''contradiction'', Text ''entailment'', Text ''neutral''}"
    by simp
  have "\<not> isl ?call"
    by code_simp
  then have enc: "?call = Inr (projr ?call)"
    by simp
  have one: "shape0 (input_ids (projr ?call)) = Inr (length ?df)"
    by code_simp
  from CorpusSC_length_and_labels [where fs = demo_fs and path = "''d/pairs.tsv''", OF tok miss rows valid enc one]
  obtain self fs' ls where
    r: "CorpusSC_init demo_libs demo_fs ''d/pairs.tsv'' ''pairs.tsv'' ''xlm-roberta-base'' False
          = (Inr self, fs')"
       "len_sc self = Inr (length ?df)"
       "dict_get (data_sc self) ''label'' = Inr (Tensor (map Scalar ls))"
       "length ls = length ?df"
       "\<forall>i < length ?df. label_lookup the_label_dict (snd (snd (?df ! i))) = Inr (ls ! i)
           \<and> field_at (data_sc self) ''label'' (int i) = Inr (Scalar (ls ! i))"
    by blast
  from r(5) have "label_lookup the_label_dict (Text ''entailment'') = Inr (ls ! 0)"
    by simp
  then have "ls ! 0 = 1"
    by (simp add: the_label_dict_def)
  with r(4) have "ls = [1]"
    by (cases ls) auto
  with rows r(1,2,3) show ?thesis
    by auto
qed

text \<open>
  Claim C3. For an uncached pair-classification file that the reader and the tokenizer
  accept, with some row whose label is not a key of the fixed dictionary, the construction
  fails with the lookup error of the first such label (no default value takes its place)
  and leaves the file system as it was, so no cache file is produced.
\<close>

theorem CorpusSC_unknown_label_raises:
  assumes tok: "from_pretrained L mname
                  \<lparr>do_lower_case = False, use_fast = None, local_files_only = lfo\<rparr> = Inr tok"
    and miss: "fs (cached_data_file path tok) = None"
    and rows: "read_csv L fs path = Inr df"
    and enc: "call tok (sc_call_args 128) (map fst df) (map (\<lambda>r. fst (snd r)) df) = Inr ids"
    and unknown: "\<exists>r \<in> set df.
                    snd (snd r) \<notin> {Text ''contradiction'', Text ''entailment'', Text ''neutral''}"
  shows "CorpusSC_init L fs path file mname lfo =
           (Inl (KeyError (hd (filter (\<lambda>c. c \<notin> {Text ''contradiction'', Text ''entailment'',
                                                 Text ''neutral''})
                                (map (\<lambda>r. snd (snd r)) df)))), fs)
         \<and> snd (CorpusSC_init L fs path file mname lfo) (cached_data_file path tok) = None"
proof -
  let ?labels = "map (\<lambda>r. snd (snd r)) df"
  have "\<exists>c \<in> set ?labels.
          c \<notin> {Text ''contradiction'', Text ''entailment'', Text ''neutral''}"
    using unknown by auto
  from map_labels_unknown [OF this]
  have "preprocess_sc L tok 128 the_label_dict fs path file =
          Inl (KeyError (hd (filter (\<lambda>c. c \<notin> {Text ''contradiction'', Text ''entailment'',
                                                Text ''neutral''}) ?labels)))"
    by (simp add: preprocess_sc_steps [OF rows enc])
  then show ?thesis
    using miss by (simp add: CorpusSC_init_miss [where fs = fs and path = path, OF tok miss])
qed

theorem CorpusSC_unknown_label_raises_witness:
  "demo_fs (cached_data_file ''d/bad.tsv'' (demo_tokenizer True)) = None
   \<and> read_csv demo_libs demo_fs ''d/bad.tsv'' = Inr [(Text ''a'', Text ''b'', Text ''unknown'')]
   \<and> CorpusSC_init demo_libs demo_fs ''d/bad.tsv'' ''bad.tsv'' ''xlm-roberta-base'' False
       = (Inl (KeyError (Text ''unknown'')), demo_fs)"
proof -
  let ?df = "[(Text ''a'', Text ''b'', Text ''unknown'')]"
  let ?tok = "demo_tokenizer True"
  let ?call = "call ?tok (sc_call_args 128) (map fst ?df) (map (\<lambda>r. fst (snd r)) ?df)"
  have tok: "from_pretrained demo_libs ''xlm-roberta-base''
               \<lparr>do_lower_case = False, use_fast = None, local_files_only = False\<rparr> = Inr ?tok"
    by (simp add: demo_libs_def demo_from_pretrained_def)
  have miss: "demo_fs (cached_data_file ''d/bad.tsv'' ?tok) = None"
    by (simp add: demo_fs_def cached_data_file_def demo_tokenizer_def)
  have rows: "read_csv demo_libs demo_fs ''d/bad.tsv'' = Inr ?df"
    by code_simp
  have "\<not> isl ?call"
    by code_simp
  then have enc: "?call = Inr (projr ?call)"
    by simp
  have unknown: "\<exists>r \<in> set ?df.
                   snd (snd r) \<notin> {Text ''contradiction'', Text ''entailment'', Text ''neutral''}"
    by simp
  show ?thesis
    using miss rows CorpusSC_unknown_label_raises [where fs = demo_fs and path = "''d/bad.tsv''", OF tok miss rows enc unknown]
    by simp
qed

section \<open>Sequence lengths of the pair-classification items\<close>

lemma longest_ge: "r \<in> set rows \<Longrightarrow> length r \<le> longest rows"
  unfolding longest_def by (induction rows) auto

lemma longest_le: "(\<forall>r \<in> set rows. length r \<le> n) \<Longrightarrow> longest rows \<le> n"
  unfolding longest_def by (induction rows) auto

lemma length_pad_to: "length r \<le> n \<Longrightarrow> length (pad_to n x r) = n"
  by (simp add: pad_to_def)

lemma is_sequence_flat: "is_sequence n (Tensor (map Scalar r)) \<longleftrightarrow> length r = n"
  by (simp add: list_all_iff)

lemma py_index_Inr_in_set: "py_index xs i = Inr x \<Longrightarrow> x \<in> set xs"
  by (auto simp: py_index_def split: if_splits)

lemma matrix_index:
  "tensor_index (matrix rows) i = Inr t \<Longrightarrow> \<exists>r \<in> set rows. t = Tensor (map Scalar r)"
proof -
  assume "tensor_index (matrix rows) i = Inr t"
  then have "py_index (map (\<lambda>r. Tensor (map Scalar r)) rows) i = Inr t"
    by (simp add: matrix_def)
  then have "t \<in> set (map (\<lambda>r. Tensor (map Scalar r)) rows)"
    by (rule py_index_Inr_in_set)
  then show ?thesis by auto
qed

lemma getitem_sc_fields:
  assumes "getitem_sc self i = Inr item"
  shows "\<exists>a b c l. field_at (data_sc self) ''input_ids'' i = Inr a
           \<and> field_at (data_sc self) ''token_type_ids'' i = Inr b
           \<and> field_at (data_sc self) ''attention_mask'' i = Inr c
           \<and> field_at (data_sc self) ''label'' i = Inr l
           \<and> item = [(''input_ids'', a), (''token_type_ids'', b),
                      (''attention_mask'', c), (''label'', l)]"
  using assms by (auto simp: getitem_sc_def split: sum.splits)

lemma hf_call_sc_Inr:
  assumes "hf_call enc pad_id (sc_call_args n) xs ys = Inr ids"
  shows "\<exists>ps hs. map_err cell_text xs = Inr ps \<and> map_err cell_text ys = Inr hs
           \<and> (let rows = map (\<lambda>(p, h). take n (enc p h)) (zip ps hs); w = longest rows
               in input_ids ids = matrix (map (\<lambda>r. pad_to w pad_id (map fst r)) rows)
                \<and> attention_mask ids = matrix (map (\<lambda>r. pad_to w 0 (map (\<lambda>t. 1) r)) rows)
                \<and> token_type_ids ids = matrix (map (\<lambda>r. pad_to w 0 (map snd r)) rows))"
  using assms
  by (auto simp: hf_call_def sc_call_args_def Let_def split: sum.splits prod.splits
           simp: case_prod_unfold comp_def)

lemma CorpusSC_init_miss_Inr:
  assumes tok: "from_pretrained L mname
                  \<lparr>do_lower_case = False, use_fast = None, local_files_only = lfo\<rparr> = Inr tok"
    and miss: "fs (cached_data_file path tok) = None"
    and rows: "read_csv L fs path = Inr df"
    and init: "CorpusSC_init L fs path file mname lfo = (Inr self, fs')"
  shows "\<exists>ids labels.
           call tok (sc_call_args 128) (map fst df) (map (\<lambda>r. fst (snd r)) df) = Inr ids
           \<and> map_labels the_label_dict (map (\<lambda>r. snd (snd r)) df) = Inr labels
           \<and> data_sc self = [(''input_ids'', input_ids ids),
                               (''token_type_ids'', attention_mask ids),
                               (''attention_mask'', token_type_ids ids),
                               (''label'', Tensor (map Scalar labels))]
           \<and> fs' = fs(cached_data_file path tok \<mapsto> Pickled (data_sc self))"
proof -
  from init obtain d where
    pre: "preprocess_sc L tok 128 the_label_dict fs path file = Inr d"
    and self: "self = \<lparr>max_sequence_length = 128, tokenizer_sc = tok,
                            label_dict = the_label_dict, data_sc = d\<rparr>"
    and fs': "fs' = fs(cached_data_file path tok \<mapsto> Pickled d)"
    by (auto simp: CorpusSC_init_miss [where fs = fs and path = path, OF tok miss]
             split: sum.splits)
  from pre rows show ?thesis
    by (auto simp: preprocess_sc_def self fs' split: sum.splits)
qed

text \<open>
  Claim C5 as stated fails: the items do not have length 128 in general. With the reference
  tokenizer and the two short pairs of the file \<open>d/tiny.tsv\<close>, item 0 has 7 input ids:
  its own 6 tokens and one padding token, 7 being the length of the longest pair.
\<close>

theorem CorpusSC_items_length_128_counterexample:
  "(case fst (CorpusSC_init demo_libs demo_fs ''d/tiny.tsv'' ''tiny.tsv''
                 ''xlm-roberta-base'' False) of
      Inl e \<Rightarrow> False
    | Inr self \<Rightarrow>
        (case getitem_sc self 0 of
           Inl e \<Rightarrow> False
         | Inr item \<Rightarrow>
             dict_get item ''input_ids'' = Inr (Tensor (map Scalar [0, 5, 2, 2, 5, 2, 1]))
             \<and> \<not> is_sequence 128 (Tensor (map Scalar [0, 5, 2, 2, 5, 2, 1]))))"
  by code_simp

text \<open>
  Claim C5, amended. For a CorpusSC constructed from an uncached file with a tokenizer that
  follows the reference contract, each item returned by indexed access has \<open>input_ids\<close>,
  \<open>token_type_ids\<close> and \<open>attention_mask\<close> sequences of one common length, at most 128:
  the length of the longest pair of the file after truncation to 128 tokens. Longer pairs
  are truncated to 128 and shorter ones padded to that common length.
\<close>

theorem CorpusSC_items_padded_to_longest:
  assumes tok: "from_pretrained L mname
                  \<lparr>do_lower_case = False, use_fast = None, local_files_only = lfo\<rparr> = Inr tok"
    and reference: "call tok = hf_call enc pad_id"
    and miss: "fs (cached_data_file path tok) = None"
    and rows: "read_csv L fs path = Inr df"
    and init: "CorpusSC_init L fs path file mname lfo = (Inr self, fs')"
    and item: "getitem_sc self i = Inr item"
  shows "\<exists>ps hs.
           map_err cell_text (map fst df) = Inr ps
           \<and> map_err cell_text (map (\<lambda>r. fst (snd r)) df) = Inr hs
           \<and> longest (map (\<lambda>(p, h). take 128 (enc p h)) (zip ps hs)) \<le> 128
           \<and> (\<forall>key \<in> {''input_ids'', ''token_type_ids'', ''attention_mask''}.
                  \<exists>t. dict_get item key = Inr t
                    \<and> is_sequence (longest (map (\<lambda>(p, h). take 128 (enc p h)) (zip ps hs))) t)"
proof -
  from CorpusSC_init_miss_Inr [where fs = fs and path = path, OF tok miss rows init]
  obtain ids labels where
    enc: "call tok (sc_call_args 128) (map fst df) (map (\<lambda>r. fst (snd r)) df) = Inr ids"
    and data: "data_sc self = [(''input_ids'', input_ids ids),
                               (''token_type_ids'', attention_mask ids),
                               (''attention_mask'', token_type_ids ids),
                               (''label'', Tensor (map Scalar labels))]"
    by blast
  from enc have "hf_call enc pad_id (sc_call_args 128) (map fst df)
                   (map (\<lambda>r. fst (snd r)) df) = Inr ids"
    by (simp add: reference)
  from hf_call_sc_Inr [OF this] obtain ps hs where
    ps: "map_err cell_text (map fst df) = Inr ps"
    and hs: "map_err cell_text (map (\<lambda>r. fst (snd r)) df) = Inr hs"
    and shape: "let rows = map (\<lambda>(p, h). take 128 (enc p h)) (zip ps hs); w = longest rows
                in input_ids ids = matrix (map (\<lambda>r. pad_to w pad_id (map fst r)) rows)
                 \<and> attention_mask ids = matrix (map (\<lambda>r. pad_to w 0 (map (\<lambda>t. 1) r)) rows)
                 \<and> token_type_ids ids = matrix (map (\<lambda>r. pad_to w 0 (map snd r)) rows)"
    by blast
  define rs where "rs = map (\<lambda>(p, h). take 128 (enc p h)) (zip ps hs)"
  define w where "w = longest rs"
  have ii: "input_ids ids = matrix (map (\<lambda>r. pad_to w pad_id (map fst r)) rs)"
    and am: "attention_mask ids = matrix (map (\<lambda>r. pad_to w 0 (map (\<lambda>t. 1) r)) rs)"
    and tt: "token_type_ids ids = matrix (map (\<lambda>r. pad_to w 0 (map snd r)) rs)"
    using shape by (simp_all add: rs_def w_def Let_def)
  have bound: "w \<le> 128"
    unfolding w_def by (rule longest_le) (auto simp: rs_def)
  have padded: "is_sequence w t"
    if "tensor_index (matrix (map (\<lambda>r. pad_to w x (map f r)) rs)) i = Inr t"
    for t and x :: int and f :: "int \<times> int \<Rightarrow> int"
  proof -
    from matrix_index [OF that] obtain r where
      r: "r \<in> set rs" and t: "t = Tensor (map Scalar (pad_to w x (map f r)))"
      by auto
    have "length r \<le> w"
      unfolding w_def using r by (rule longest_ge)
    then show ?thesis
      by (simp add: t is_sequence_flat length_pad_to del: is_sequence.simps)
  qed
  from getitem_sc_fields [OF item] obtain a b c l where
    fa: "field_at (data_sc self) ''input_ids'' i = Inr a"
    and fb: "field_at (data_sc self) ''token_type_ids'' i = Inr b"
    and fc: "field_at (data_sc self) ''attention_mask'' i = Inr c"
    and it: "item = [(''input_ids'', a), (''token_type_ids'', b),
                     (''attention_mask'', c), (''label'', l)]"
    by blast
  have sa: "is_sequence w a"
    using fa by (intro padded [of pad_id fst]) (simp add: field_at_def data dict_get_def ii)
  have sb: "is_sequence w b"
    using fb by (intro padded [of 0 "\<lambda>t. 1"]) (simp add: field_at_def data dict_get_def am)
  have sc: "is_sequence w c"
    using fc by (intro padded [of 0 snd]) (simp add: field_at_def data dict_get_def tt)
  have "\<forall>key \<in> {''input_ids'', ''token_type_ids'', ''attention_mask''}.
          \<exists>t. dict_get item key = Inr t \<and> is_sequence w t"
    using sa sb sc by (simp add: it dict_get_def)
  with ps hs bound show ?thesis
    unfolding w_def rs_def by blast
qed

theorem CorpusSC_items_padded_to_longest_witness:
  "CorpusSC_init demo_libs demo_fs ''d/tiny.tsv'' ''tiny.tsv'' ''xlm-roberta-base'' False
     = (Inr tiny_sc, demo_fs(cached_data_file ''d/tiny.tsv'' (demo_tokenizer True)
                               \<mapsto> Pickled (data_sc tiny_sc)))
   \<and> \<not> isl (getitem_sc tiny_sc 0)
   \<and> (\<exists>t. dict_get (projr (getitem_sc tiny_sc 0)) ''input_ids'' = Inr t
          \<and> is_sequence 7 t)
   \<and> (\<exists>t. dict_get (projr (getitem_sc tiny_sc 0)) ''token_type_ids'' = Inr t
          \<and> is_sequence 7 t)
   \<and> (\<exists>t. dict_get (projr (getitem_sc tiny_sc 0)) ''attention_mask'' = Inr t
          \<and> is_sequence 7 t)"
proof -
  let ?df = "[(Text ''a'', Text ''b'', Text ''neutral''),
              (Text ''ab'', Text ''c'', Text ''contradiction'')]"
  let ?tok = "demo_tokenizer True"
  let ?fs' = "demo_fs(cached_data_file ''d/tiny.tsv'' ?tok \<mapsto> Pickled (data_sc tiny_sc))"
  have tok: "from_pretrained demo_libs ''xlm-roberta-base''
               \<lparr>do_lower_case = False, use_fast = None, local_files_only = False\<rparr> = Inr ?tok"
    by (simp add: demo_libs_def demo_from_pretrained_def)
  have reference: "call ?tok = hf_call demo_encode 1"
    by (simp add: demo_tokenizer_def)
  have miss: "demo_fs (cached_data_file ''d/tiny.tsv'' ?tok) = None"
    by (simp add: demo_fs_def cached_data_file_def demo_tokenizer_def)
  have rows: "read_csv demo_libs demo_fs ''d/tiny.tsv'' = Inr ?df"
    by code_simp
  have pre: "preprocess_sc demo_libs ?tok 128 the_label_dict demo_fs ''d/tiny.tsv''
               ''tiny.tsv'' = Inr tiny_data"
    by code_simp
  have init0: "CorpusSC_init demo_libs demo_fs ''d/tiny.tsv'' ''tiny.tsv'' ''xlm-roberta-base''
                 False =
               (Inr \<lparr>max_sequence_length = 128, tokenizer_sc = ?tok,
                     label_dict = the_label_dict, data_sc = tiny_data\<rparr>,
                demo_fs(cached_data_file ''d/tiny.tsv'' ?tok \<mapsto> Pickled tiny_data))"
    by (simp add: CorpusSC_init_miss [where fs = demo_fs and path = "''d/tiny.tsv''",
                                      OF tok miss] pre)
  have sc: "tiny_sc = \<lparr>max_sequence_length = 128, tokenizer_sc = ?tok,
                         label_dict = the_label_dict, data_sc = tiny_data\<rparr>"
    by (simp add: tiny_sc_def)
  have init: "CorpusSC_init demo_libs demo_fs ''d/tiny.tsv'' ''tiny.tsv'' ''xlm-roberta-base''
                False = (Inr tiny_sc, ?fs')"
    by (simp add: init0 sc)
  have ok: "\<not> isl (getitem_sc tiny_sc 0)"
    unfolding sc by code_simp
  then have item: "getitem_sc tiny_sc 0 = Inr (projr (getitem_sc tiny_sc 0))"
    by simp
  from CorpusSC_items_padded_to_longest
         [where fs = demo_fs and path = "''d/tiny.tsv''", OF tok reference miss rows init item]
  obtain ps hs where
    ps: "map_err cell_text (map fst ?df) = Inr ps"
    and hs: "map_err cell_text (map (\<lambda>r. fst (snd r)) ?df) = Inr hs"
    and seqs: "\<forall>key \<in> {''input_ids'', ''token_type_ids'', ''attention_mask''}.
                 \<exists>t. dict_get (projr (getitem_sc tiny_sc 0)) key = Inr t
                   \<and> is_sequence
                        (longest (map (\<lambda>(p, h). take 128 (demo_encode p h)) (zip ps hs))) t"
    by blast
  from ps have ps': "ps = [''a'', ''ab'']" by simp
  from hs have hs': "hs = [''b'', ''c'']" by simp
  have "longest (map (\<lambda>(p, h). take 128 (demo_encode p h)) (zip ps hs)) = 7"
    unfolding ps' hs' by code_simp
  with seqs init ok show ?thesis
    by simp
qed

section \<open>Paths of the cache files\<close>

lemma split_on_nonempty: "split_on c s \<noteq> []"
  by (induction s) (auto split: list.splits)

lemma split_on_append:
  "c \<notin> set n \<Longrightarrow> split_on c (d @ c # n) = split_on c d @ [n]"
proof (induction d)
  case Nil
  have "split_on c n = [n]" using Nil
    by (induction n) (auto split: list.splits)
  then show ?case by simp
next
  case (Cons x d)
  then show ?case
    by (cases "split_on c d") (auto simp: split_on_nonempty)
qed

lemma split_on_no_sep: "c \<notin> set s \<Longrightarrow> split_on c s = [s]"
  by (induction s) (auto split: list.splits)

lemma join_split: "join_with [c] (split_on c s) = s"
proof (induction s)
  case Nil
  show ?case by simp
next
  case (Cons x s)
  obtain p ps where ps: "split_on c s = p # ps"
    using split_on_nonempty [of c s] by (cases "split_on c s") auto
  show ?case
  proof (cases "x = c")
    case True
    then show ?thesis using Cons ps by simp
  next
    case False
    then show ?thesis using Cons ps by (cases ps) auto
  qed
qed

lemma filename_of_path: "CHR ''/'' \<notin> set name \<Longrightarrow> filename (dir @ ''/'' @ name) = name"
  by (simp add: filename_def split_on_append)

lemma data_dir_of_path: "CHR ''/'' \<notin> set name \<Longrightarrow> data_dir (dir @ ''/'' @ name) = dir"
  by (simp add: data_dir_def split_on_append join_split)

lemma cached_features_file_shape:
  assumes "CHR ''/'' \<notin> set name" and "dir \<noteq> []" and "last dir \<noteq> CHR ''/''"
  shows "cached_features_file tok (dir @ ''/'' @ name)
           = dir @ ''/cached_'' @ class_name tok @ ''_'' @ name"
proof -
  have f: "filename (dir @ ''/'' @ name) = name"
    using assms(1) by (rule filename_of_path)
  have d: "data_dir (dir @ ''/'' @ name) = dir"
    using assms(1) by (rule data_dir_of_path)
  show ?thesis
    unfolding cached_features_file_def f d using assms(2,3) by (simp add: os_path_join_def)
qed

lemma cached_features_file_bare:
  assumes "CHR ''/'' \<notin> set name"
  shows "cached_features_file tok name = ''cached_'' @ class_name tok @ ''_'' @ name"
  using assms
  by (simp add: cached_features_file_def filename_def data_dir_def split_on_no_sep
                os_path_join_def)

section \<open>The question-answering dataset\<close>

lemma preprocess_qa_hit:
  assumes "fs (cached_features_file tok path) = Some (TorchSaved b)"
  shows "preprocess_qa L tok msl ds mql fs path evaluate
           = (Inr (dataset b, examples b, features b), fs)"
  using assms by (simp add: preprocess_qa_def)

lemma preprocess_qa_miss_Inr:
  assumes "fs (cached_features_file tok path) = None"
    and "preprocess_qa L tok msl ds mql fs path evaluate = (Inr (dset, exs, fts), fs')"
  shows "(if evaluate then get_dev_examples L fs (data_dir path) (filename path)
          else get_train_examples L fs (data_dir path) (filename path)) = Inr exs
         \<and> squad_convert_examples_to_features L exs tok
               \<lparr>max_seq_length = msl, doc_stride_arg = ds, max_query_length = mql,
                is_training = (\<not> evaluate), return_dataset = ''pt'', threads = 1\<rparr>
             = Inr (fts, dset)
         \<and> fs' = fs(cached_features_file tok path \<mapsto>
                      TorchSaved \<lparr>features = fts, dataset = dset, examples = exs\<rparr>)"
  using assms
  by (auto simp: preprocess_qa_def split: sum.splits if_splits prod.splits)

lemma preprocess_qa_miss:
  assumes "fs (cached_features_file tok path) = None"
    and "(if evaluate then get_dev_examples L fs (data_dir path) (filename path)
          else get_train_examples L fs (data_dir path) (filename path)) = Inr exs"
    and "squad_convert_examples_to_features L exs tok
               \<lparr>max_seq_length = msl, doc_stride_arg = ds, max_query_length = mql,
                is_training = (\<not> evaluate), return_dataset = ''pt'', threads = 1\<rparr>
             = Inr (fts, dset)"
  shows "preprocess_qa L tok msl ds mql fs path evaluate =
           (Inr (dset, exs, fts),
            fs(cached_features_file tok path \<mapsto>
                 TorchSaved \<lparr>features = fts, dataset = dset, examples = exs\<rparr>))"
  using assms by (simp add: preprocess_qa_def)

lemma CorpusQA_init_Inr:
  assumes "from_pretrained L mname
             \<lparr>do_lower_case = False, use_fast = Some False, local_files_only = lfo\<rparr> = Inr tok"
    and "CorpusQA_init L fs path evaluate mname lfo = (Inr self, fs')"
  shows "\<exists>d. preprocess_qa L tok 384 128 64 fs path evaluate
               = (Inr (dataset_qa self, examples_qa self, features_qa self), fs')
           \<and> build_data (dataset_qa self) (enumerate 0 qa_keys) = Inr d
           \<and> self = \<lparr>doc_stride = 128, max_query_len = 64, max_seq_len = 384,
                       model_name = mname, tokenizer_qa = tok,
                       dataset_qa = dataset_qa self, examples_qa = examples_qa self,
                       features_qa = features_qa self, data_qa = d\<rparr>"
  using assms
  by (auto simp: CorpusQA_init_def split: sum.splits prod.splits)

lemma CorpusQA_init_from_preprocess:
  assumes "from_pretrained L mname
             \<lparr>do_lower_case = False, use_fast = Some False, local_files_only = lfo\<rparr> = Inr tok"
    and "preprocess_qa L tok 384 128 64 fs path evaluate = (Inr (dset, exs, fts), fs')"
  shows "CorpusQA_init L fs path evaluate mname lfo =
           (case build_data dset (enumerate 0 qa_keys) of
              Inl e \<Rightarrow> (Inl e, fs')
            | Inr d \<Rightarrow>
                (Inr \<lparr>doc_stride = 128, max_query_len = 64, max_seq_len = 384,
                      model_name = mname, tokenizer_qa = tok, dataset_qa = dset,
                      examples_qa = exs, features_qa = fts, data_qa = d\<rparr>, fs'))"
  using assms by (simp add: CorpusQA_init_def)

lemma map_err_all_Inr:
  "(\<forall>x \<in> set xs. f x = Inr (g x)) \<Longrightarrow> map_err f xs = Inr (map g xs)"
  by (induction xs) auto

lemma py_index_in_range:
  "- int (length xs) \<le> i \<Longrightarrow> i < int (length xs) \<Longrightarrow> \<exists>x. py_index xs i = Inr x"
  by (auto simp: py_index_def)

lemma py_index_nat: "k < length xs \<Longrightarrow> py_index xs (int k) = Inr (xs ! k)"
  by (simp add: py_index_def)

lemma py_index_empty: "py_index [] i = Inl IndexError"
  by (simp add: py_index_def)

lemma dataset_slice_all_rows:
  assumes "\<forall>t \<in> set dset. shape0 t = Inr n"
  shows "dataset_slice_all dset = Inr dset"
proof -
  have "tensor_slice_all t = Inr t" if "t \<in> set dset" for t
    using assms that by (cases t) auto
  then have "map_err tensor_slice_all dset = Inr (map (\<lambda>t. t) dset)"
    by (intro map_err_all_Inr) simp
  then show ?thesis by (simp add: dataset_slice_all_def)
qed

lemma build_data_five:
  assumes "dataset_slice_all dset = Inr dset" and "5 \<le> length dset"
  shows "build_data dset (enumerate 0 qa_keys) =
           Inr [(''input_ids'', dset ! 0), (''attention_mask'', dset ! 1),
                (''token_type_ids'', dset ! 2), (''answer_start'', dset ! 3),
                (''answer_end'', dset ! 4)]"
proof -
  have idx: "py_index dset (int k) = Inr (dset ! k)" if "k < 5" for k
    using assms(2) that by (intro py_index_nat) simp
  have "py_index dset 0 = Inr (dset ! 0)" using idx [of 0] by simp
  moreover have "py_index dset 1 = Inr (dset ! 1)" using idx [of 1] by simp
  moreover have "py_index dset 2 = Inr (dset ! 2)" using idx [of 2] by simp
  moreover have "py_index dset 3 = Inr (dset ! 3)" using idx [of 3] by simp
  moreover have "py_index dset 4 = Inr (dset ! 4)" using idx [of 4] by simp
  ultimately show ?thesis
    by (simp add: qa_keys_def assms(1))
qed

lemma dataset_getitem_rows:
  assumes "\<forall>t \<in> set dset. shape0 t = Inr n" and "- int n \<le> i" and "i < int n"
  shows "dataset_getitem dset i = Inr (map (\<lambda>t. projr (tensor_index t i)) dset)"
proof -
  have "tensor_index t i = Inr (projr (tensor_index t i))" if "t \<in> set dset" for t
  proof (cases t)
    case (Scalar v)
    then show ?thesis using assms(1) that by auto
  next
    case (Tensor xs)
    then have "length xs = n" using assms(1) that by auto
    then obtain x where "py_index xs i = Inr x"
      using py_index_in_range [of xs i] assms(2,3) by auto
    then show ?thesis using Tensor by simp
  qed
  then show ?thesis
    unfolding dataset_getitem_def by (intro map_err_all_Inr) simp
qed

lemma dataset_at_rows:
  assumes "\<forall>t \<in> set dset. shape0 t = Inr n" and "- int n \<le> i" and "i < int n"
    and "k < length dset"
  shows "dataset_at dset i (int k) = tensor_index (dset ! k) i
         \<and> \<not> isl (tensor_index (dset ! k) i)"
proof -
  have ok: "\<not> isl (tensor_index (dset ! k) i)"
  proof (cases "dset ! k")
    case (Scalar v)
    then show ?thesis using assms(1,4) by (metis nth_mem shape0.simps(1) sum.distinct(1))
  next
    case (Tensor xs)
    then have "length xs = n" using assms(1,4) by (metis nth_mem shape0.simps(2) sum.inject(2))
    then obtain x where "py_index xs i = Inr x"
      using py_index_in_range [of xs i] assms(2,3) by auto
    then show ?thesis using Tensor by simp
  qed
  have "dataset_at dset i (int k) = Inr (projr (tensor_index (dset ! k) i))"
    using assms(4)
    by (simp add: dataset_at_def dataset_getitem_rows [OF assms(1,2,3)] py_index_nat)
  with ok show ?thesis by simp
qed

lemma rows_are_sequences_index:
  "rows_are_sequences m t \<Longrightarrow> tensor_index t i = Inr r \<Longrightarrow> is_sequence m r"
proof (cases t)
  case (Scalar v)
  assume "rows_are_sequences m t"
  with Scalar show ?thesis by (simp add: rows_are_sequences_def)
next
  case (Tensor xs)
  assume a: "rows_are_sequences m t" and b: "tensor_index t i = Inr r"
  from b Tensor have "r \<in> set xs" by (simp add: py_index_Inr_in_set)
  with a Tensor show ?thesis by (simp add: rows_are_sequences_def list_all_iff)
qed

text \<open>
  Claim C4 as stated fails: \<open>answer_start\<close> and \<open>answer_end\<close> are not sequences of length
  384. With a converter that lays its tensors out as the library's does (three tensors of
  384 entries per row, then one scalar per row for the start and the end position), item 0
  holds a scalar under \<open>answer_start\<close>.
\<close>

theorem CorpusQA_answer_start_length_384_counterexample:
  "(case fst (CorpusQA_init demo_libs demo_fs ''d/train.json'' False ''xlm-roberta-base''
                 False) of
      Inl e \<Rightarrow> False
    | Inr self \<Rightarrow>
        len_qa self = Inr 1
        \<and> (case getitem_qa self 0 of
               Inl e \<Rightarrow> False
             | Inr item \<Rightarrow>
                 dict_get item ''answer_start'' = Inr (Scalar 0)
                 \<and> \<not> is_sequence 384 (Scalar 0)))"
  by (simp add: CorpusQA_init_def demo_libs_def demo_from_pretrained_def preprocess_qa_def
        cached_features_file_def data_dir_def filename_def os_path_join_def demo_fs_def
        demo_tokenizer_def demo_get_examples_def non_blank_lines_def demo_convert_def
        dataset_slice_all_def qa_keys_def py_index_def len_qa_def len_dataset_def
        getitem_qa_def dataset_at_def dataset_getitem_def dict_get_def)

text \<open>
  Claim C4, amended. For a valid QA source file (not cached yet, the example extraction
  and the conversion succeed, and the converted dataset has at least five tensors of n rows
  each): the construction succeeds, \<open>max_seq_len\<close> is 384, \<open>length()\<close> is n, the number of
  rows of the converted dataset, and for every index in range indexed access returns a
  mapping with exactly the five keys \<open>input_ids\<close>, \<open>attention_mask\<close>, \<open>token_type_ids\<close>,
  \<open>answer_start\<close>, \<open>answer_end\<close>, holding that row of the first five tensors of the
  dataset. The first three are sequences of length 384 whenever the rows of the first
  three tensors are; \<open>answer_start\<close> and \<open>answer_end\<close> are whatever the rows of the fourth
  and fifth tensors are.
\<close>

theorem CorpusQA_length_and_items:
  assumes tok: "from_pretrained L mname
                  \<lparr>do_lower_case = False, use_fast = Some False, local_files_only = lfo\<rparr>
                = Inr tok"
    and miss: "fs (cached_features_file tok path) = None"
    and extracted: "(if evaluate then get_dev_examples L fs (data_dir path) (filename path)
                     else get_train_examples L fs (data_dir path) (filename path)) = Inr exs"
    and converted: "squad_convert_examples_to_features L exs tok
                      \<lparr>max_seq_length = 384, doc_stride_arg = 128, max_query_length = 64,
                       is_training = (\<not> evaluate), return_dataset = ''pt'', threads = 1\<rparr>
                    = Inr (fts, dset)"
    and five: "5 \<le> length dset"
    and same_rows: "\<forall>t \<in> set dset. shape0 t = Inr n"
    and in_range: "- int n \<le> i" "i < int n"
  shows "\<exists>self fs' a b c s e.
           CorpusQA_init L fs path evaluate mname lfo = (Inr self, fs')
           \<and> max_seq_len self = 384
           \<and> dataset_qa self = dset
           \<and> len_qa self = Inr n
           \<and> getitem_qa self i =
                 Inr [(''input_ids'', a), (''attention_mask'', b), (''token_type_ids'', c),
                      (''answer_start'', s), (''answer_end'', e)]
           \<and> tensor_index (dset ! 0) i = Inr a
           \<and> tensor_index (dset ! 1) i = Inr b
           \<and> tensor_index (dset ! 2) i = Inr c
           \<and> tensor_index (dset ! 3) i = Inr s
           \<and> tensor_index (dset ! 4) i = Inr e
           \<and> ((\<forall>k < 3. rows_are_sequences 384 (dset ! k))
                  \<longrightarrow> is_sequence 384 a \<and> is_sequence 384 b \<and> is_sequence 384 c)"
proof -
  define fs' where "fs' = fs(cached_features_file tok path \<mapsto>
                              TorchSaved \<lparr>features = fts, dataset = dset, examples = exs\<rparr>)"
  define d where "d = [(''input_ids'', dset ! 0), (''attention_mask'', dset ! 1),
                       (''token_type_ids'', dset ! 2), (''answer_start'', dset ! 3),
                       (''answer_end'', dset ! 4)]"
  define self :: "('a, 'b) CorpusQA" where
    "self = \<lparr>doc_stride = 128, max_query_len = 64, max_seq_len = 384,
              model_name = mname, tokenizer_qa = tok, dataset_qa = dset,
              examples_qa = exs, features_qa = fts, data_qa = d\<rparr>"
  have pre: "preprocess_qa L tok 384 128 64 fs path evaluate = (Inr (dset, exs, fts), fs')"
    unfolding fs'_def
    by (rule preprocess_qa_miss [where fs = fs and path = path, OF miss extracted converted])
  have built: "build_data dset (enumerate 0 qa_keys) = Inr d"
    unfolding d_def by (rule build_data_five [OF dataset_slice_all_rows [OF same_rows] five])
  have init: "CorpusQA_init L fs path evaluate mname lfo = (Inr self, fs')"
    by (simp add: CorpusQA_init_from_preprocess [OF tok pre] built self_def)
  obtain t0 where t0: "py_index dset 0 = Inr t0" "t0 \<in> set dset"
    using five py_index_nat [of 0 dset] by (cases dset) auto
  have len: "len_qa self = Inr n"
    using t0 same_rows by (simp add: len_qa_def len_dataset_def self_def)
  have at: "dataset_at dset i (int k) = tensor_index (dset ! k) i
            \<and> \<not> isl (tensor_index (dset ! k) i)" if "k < 5" for k
    using five that by (intro dataset_at_rows [OF same_rows in_range]) simp
  define a where "a = projr (tensor_index (dset ! 0) i)"
  define b where "b = projr (tensor_index (dset ! 1) i)"
  define c where "c = projr (tensor_index (dset ! 2) i)"
  define s where "s = projr (tensor_index (dset ! 3) i)"
  define e where "e = projr (tensor_index (dset ! 4) i)"
  have a: "dataset_at dset i 0 = Inr a" "tensor_index (dset ! 0) i = Inr a"
    using at [of 0] by (simp_all add: a_def)
  have b: "dataset_at dset i 1 = Inr b" "tensor_index (dset ! 1) i = Inr b"
    using at [of 1] by (simp_all add: b_def)
  have c: "dataset_at dset i 2 = Inr c" "tensor_index (dset ! 2) i = Inr c"
    using at [of 2] by (simp_all add: c_def)
  have s: "dataset_at dset i 3 = Inr s" "tensor_index (dset ! 3) i = Inr s"
    using at [of 3] by (simp_all add: s_def)
  have e: "dataset_at dset i 4 = Inr e" "tensor_index (dset ! 4) i = Inr e"
    using at [of 4] by (simp_all add: e_def)
  have item: "getitem_qa self i =
                Inr [(''input_ids'', a), (''attention_mask'', b), (''token_type_ids'', c),
                     (''answer_start'', s), (''answer_end'', e)]"
    by (simp add: getitem_qa_def self_def a(1) b(1) c(1) s(1) e(1))
  have seqs: "is_sequence 384 a \<and> is_sequence 384 b \<and> is_sequence 384 c"
    if "\<forall>k < 3. rows_are_sequences 384 (dset ! k)"
  proof -
    have "rows_are_sequences 384 (dset ! 0)" "rows_are_sequences 384 (dset ! 1)"
      "rows_are_sequences 384 (dset ! 2)"
      using that by simp_all
    then show ?thesis
      using a(2) b(2) c(2) by (blast intro: rows_are_sequences_index)
  qed
  have fields: "max_seq_len self = 384" "dataset_qa self = dset"
    by (simp_all add: self_def)
  show ?thesis
    using init fields len item a(2) b(2) c(2) s(2) e(2) seqs by blast
qed

theorem CorpusQA_length_and_items_witness:
  "squad_convert_examples_to_features demo_libs [''q1''] (demo_tokenizer False)
     \<lparr>max_seq_length = 384, doc_stride_arg = 128, max_query_length = 64,
      is_training = True, return_dataset = ''pt'', threads = 1\<rparr> = Inr ([0], demo_dataset)
   \<and> (\<exists>self fs' a b c s e.
         CorpusQA_init demo_libs demo_fs ''d/train.json'' False ''xlm-roberta-base'' False
           = (Inr self, fs')
         \<and> len_qa self = Inr 1
         \<and> getitem_qa self 0 =
               Inr [(''input_ids'', a), (''attention_mask'', b), (''token_type_ids'', c),
                    (''answer_start'', s), (''answer_end'', e)]
         \<and> is_sequence 384 a \<and> is_sequence 384 b \<and> is_sequence 384 c
         \<and> s = Scalar 0 \<and> e = Scalar 0)"
proof -
  let ?tok = "demo_tokenizer False"
  have tok: "from_pretrained demo_libs ''xlm-roberta-base''
               \<lparr>do_lower_case = False, use_fast = Some False, local_files_only = False\<rparr>
             = Inr ?tok"
    by (simp add: demo_libs_def demo_from_pretrained_def)
  have path: "cached_features_file ?tok ''d/train.json''
                = ''d/cached_XLMRobertaTokenizer_train.json''"
    by code_simp
  have miss: "demo_fs (cached_features_file ?tok ''d/train.json'') = None"
    unfolding path by (simp add: demo_fs_def)
  have extracted: "(if False
                    then get_dev_examples demo_libs demo_fs (data_dir ''d/train.json'')
                           (filename ''d/train.json'')
                    else get_train_examples demo_libs demo_fs (data_dir ''d/train.json'')
                           (filename ''d/train.json'')) = Inr [''q1'']"
    by code_simp
  have converted: "squad_convert_examples_to_features demo_libs [''q1''] ?tok
                     \<lparr>max_seq_length = 384, doc_stride_arg = 128, max_query_length = 64,
                      is_training = (\<not> False), return_dataset = ''pt'', threads = 1\<rparr>
                   = Inr ([0], demo_dataset)"
    by (simp add: demo_libs_def demo_convert_def demo_dataset_def)
  have five: "5 \<le> length demo_dataset"
    by (simp add: demo_dataset_def)
  have same_rows: "\<forall>t \<in> set demo_dataset. shape0 t = Inr 1"
    by (simp add: demo_dataset_def)
  have in_range: "- int 1 \<le> 0" "(0::int) < int 1"
    by simp_all
  have wide: "\<forall>k < 3. rows_are_sequences 384 (demo_dataset ! k)"
    by (simp add: demo_dataset_def rows_are_sequences_def less_Suc_eq numeral_3_eq_3
                  list_all_iff)
  from CorpusQA_length_and_items
         [where fs = demo_fs and path = "''d/train.json''",
          OF tok miss extracted converted five same_rows in_range]
  obtain self fs' a b c s e where
    r: "CorpusQA_init demo_libs demo_fs ''d/train.json'' False ''xlm-roberta-base'' False
          = (Inr self, fs')"
       "len_qa self = Inr 1"
       "getitem_qa self 0 =
          Inr [(''input_ids'', a), (''attention_mask'', b), (''token_type_ids'', c),
               (''answer_start'', s), (''answer_end'', e)]"
       "tensor_index (demo_dataset ! 3) 0 = Inr s"
       "tensor_index (demo_dataset ! 4) 0 = Inr e"
       "(\<forall>k < 3. rows_are_sequences 384 (demo_dataset ! k))
          \<longrightarrow> is_sequence 384 a \<and> is_sequence 384 b \<and> is_sequence 384 c"
    by blast
  have s: "s = Scalar 0"
    using r(4) by (simp add: demo_dataset_def py_index_def)
  have e: "e = Scalar 0"
    using r(5) by (simp add: demo_dataset_def py_index_def)
  from r(6) wide have "is_sequence 384 a \<and> is_sequence 384 b \<and> is_sequence 384 c"
    by blast
  with converted r(1,2,3) s e show ?thesis
    by auto
qed

section \<open>The cache files\<close>

lemma preprocess_sc_keys:
  "preprocess_sc L tok msl ld fs path file = Inr d \<Longrightarrow>
     map fst d = [''input_ids'', ''token_type_ids'', ''attention_mask'', ''label'']"
  by (auto simp: preprocess_sc_def Let_def split: sum.splits)

lemma CorpusSC_init_miss_result:
  assumes tok: "from_pretrained L mname
                  \<lparr>do_lower_case = False, use_fast = None, local_files_only = lfo\<rparr> = Inr tok"
    and miss: "fs (cached_data_file path tok) = None"
    and init: "CorpusSC_init L fs path file mname lfo = (Inr self, fs')"
  shows "preprocess_sc L tok 128 the_label_dict fs path file = Inr (data_sc self)
         \<and> self = \<lparr>max_sequence_length = 128, tokenizer_sc = tok,
                    label_dict = the_label_dict, data_sc = data_sc self\<rparr>
         \<and> fs' = fs(cached_data_file path tok \<mapsto> Pickled (data_sc self))"
  using init
  by (auto simp: CorpusSC_init_miss [where fs = fs and path = path, OF tok miss]
           split: sum.splits)

text \<open>
  Claim C6. On a cache miss that runs to the end, \<^verbatim>\<open>CorpusQA.preprocess\<close> changes the
  file system at exactly one path, \<open>dir/cached_TokenizerClassName_filename\<close> for a source
  \<open>dir/filename\<close>, where it stores the mapping with the three keys \<open>features\<close>,
  \<open>dataset\<close>, \<open>examples\<close>; and the construction of a CorpusSC changes it at exactly one
  path, \<open>path_TokenizerClassName.pickle\<close>, where it stores the assembled dictionary of the
  four entries \<open>input_ids\<close>, \<open>token_type_ids\<close>, \<open>attention_mask\<close>, \<open>label\<close>.
\<close>

theorem cache_entries_written_on_miss:
  assumes qa_miss: "fsq (cached_features_file tokq (dir @ ''/'' @ name)) = None"
    and qa_run: "preprocess_qa L tokq msl ds mql fsq (dir @ ''/'' @ name) evaluate
                   = (Inr (dset, exs, fts), fsq')"
    and name: "CHR ''/'' \<notin> set name"
    and dir: "dir \<noteq> []" "last dir \<noteq> CHR ''/''"
    and sc_tok: "from_pretrained L mname
                   \<lparr>do_lower_case = False, use_fast = None, local_files_only = lfo\<rparr> = Inr toks"
    and sc_miss: "fss (cached_data_file path toks) = None"
    and sc_run: "CorpusSC_init L fss path file mname lfo = (Inr self, fss')"
  shows "fsq' = fsq(dir @ ''/cached_'' @ class_name tokq @ ''_'' @ name \<mapsto>
                     TorchSaved \<lparr>features = fts, dataset = dset, examples = exs\<rparr>)
         \<and> fss' = fss(path @ ''_'' @ class_name toks @ ''.pickle'' \<mapsto> Pickled (data_sc self))
         \<and> map fst (data_sc self)
             = [''input_ids'', ''token_type_ids'', ''attention_mask'', ''label'']"
proof -
  have p: "cached_features_file tokq (dir @ ''/'' @ name)
             = dir @ ''/cached_'' @ class_name tokq @ ''_'' @ name"
    using name dir by (rule cached_features_file_shape)
  from preprocess_qa_miss_Inr [where fs = fsq and path = "dir @ ''/'' @ name",
                               OF qa_miss qa_run]
  have qa: "fsq' = fsq(dir @ ''/cached_'' @ class_name tokq @ ''_'' @ name \<mapsto>
                        TorchSaved \<lparr>features = fts, dataset = dset, examples = exs\<rparr>)"
    unfolding p by simp
  from CorpusSC_init_miss_result [where fs = fss and path = path, OF sc_tok sc_miss sc_run]
  have pre: "preprocess_sc L toks 128 the_label_dict fss path file = Inr (data_sc self)"
    and sc: "fss' = fss(cached_data_file path toks \<mapsto> Pickled (data_sc self))"
    by simp_all
  from sc have sc': "fss' = fss(path @ ''_'' @ class_name toks @ ''.pickle''
                                  \<mapsto> Pickled (data_sc self))"
    by (simp add: cached_data_file_def)
  from qa sc' preprocess_sc_keys [OF pre] show ?thesis
    by simp
qed

lemma demo_sc_tok:
  "from_pretrained demo_libs ''xlm-roberta-base''
     \<lparr>do_lower_case = False, use_fast = None, local_files_only = False\<rparr>
   = Inr (demo_tokenizer True)"
  by (simp add: demo_libs_def demo_from_pretrained_def)

lemma demo_qa_tok:
  "from_pretrained demo_libs ''xlm-roberta-base''
     \<lparr>do_lower_case = False, use_fast = Some False, local_files_only = False\<rparr>
   = Inr (demo_tokenizer False)"
  by (simp add: demo_libs_def demo_from_pretrained_def)

lemma demo_tiny_miss: "demo_fs (cached_data_file ''d/tiny.tsv'' (demo_tokenizer True)) = None"
  by (simp add: demo_fs_def cached_data_file_def demo_tokenizer_def)

lemma demo_tiny_init:
  "CorpusSC_init demo_libs demo_fs ''d/tiny.tsv'' ''tiny.tsv'' ''xlm-roberta-base'' False
     = (Inr tiny_sc, demo_fs(cached_data_file ''d/tiny.tsv'' (demo_tokenizer True)
                               \<mapsto> Pickled (data_sc tiny_sc)))
   \<and> tiny_sc = \<lparr>max_sequence_length = 128, tokenizer_sc = demo_tokenizer True,
                   label_dict = the_label_dict, data_sc = tiny_data\<rparr>"
proof -
  have pre: "preprocess_sc demo_libs (demo_tokenizer True) 128 the_label_dict demo_fs
               ''d/tiny.tsv'' ''tiny.tsv'' = Inr tiny_data"
    by code_simp
  have init0: "CorpusSC_init demo_libs demo_fs ''d/tiny.tsv'' ''tiny.tsv'' ''xlm-roberta-base''
                 False =
               (Inr \<lparr>max_sequence_length = 128, tokenizer_sc = demo_tokenizer True,
                     label_dict = the_label_dict, data_sc = tiny_data\<rparr>,
                demo_fs(cached_data_file ''d/tiny.tsv'' (demo_tokenizer True)
                          \<mapsto> Pickled tiny_data))"
    by (simp add: CorpusSC_init_miss [where fs = demo_fs and path = "''d/tiny.tsv''",
                                      OF demo_sc_tok demo_tiny_miss] pre)
  have sc: "tiny_sc = \<lparr>max_sequence_length = 128, tokenizer_sc = demo_tokenizer True,
                         label_dict = the_label_dict, data_sc = tiny_data\<rparr>"
    by (simp add: tiny_sc_def)
  show ?thesis
    by (simp add: init0 sc)
qed

lemma demo_train_path:
  "cached_features_file (demo_tokenizer False) ''d/train.json''
     = ''d/cached_XLMRobertaTokenizer_train.json''"
  by code_simp

lemma demo_train_miss: "demo_fs (cached_features_file (demo_tokenizer False) ''d/train.json'') = None"
  unfolding demo_train_path by (simp add: demo_fs_def)

lemma demo_train_preprocess:
  "preprocess_qa demo_libs (demo_tokenizer False) 384 128 64 demo_fs ''d/train.json'' False
     = (Inr (demo_dataset, [''q1''], [0]),
        demo_fs(cached_features_file (demo_tokenizer False) ''d/train.json'' \<mapsto>
                  TorchSaved \<lparr>features = [0], dataset = demo_dataset, examples = [''q1'']\<rparr>))"
proof -
  have extracted: "(if False
                    then get_dev_examples demo_libs demo_fs (data_dir ''d/train.json'')
                           (filename ''d/train.json'')
                    else get_train_examples demo_libs demo_fs (data_dir ''d/train.json'')
                           (filename ''d/train.json'')) = Inr [''q1'']"
    by code_simp
  have converted: "squad_convert_examples_to_features demo_libs [''q1''] (demo_tokenizer False)
                     \<lparr>max_seq_length = 384, doc_stride_arg = 128, max_query_length = 64,
                      is_training = (\<not> False), return_dataset = ''pt'', threads = 1\<rparr>
                   = Inr ([0], demo_dataset)"
    by (simp add: demo_libs_def demo_convert_def demo_dataset_def)
  show ?thesis
    by (rule preprocess_qa_miss [where fs = demo_fs and path = "''d/train.json''",
                                 OF demo_train_miss extracted converted])
qed

theorem cache_entries_written_on_miss_witness:
  "preprocess_qa demo_libs (demo_tokenizer False) 384 128 64 demo_fs ''d/train.json'' False
     = (Inr (demo_dataset, [''q1''], [0]),
        demo_fs(''d/cached_XLMRobertaTokenizer_train.json'' \<mapsto>
                  TorchSaved \<lparr>features = [0], dataset = demo_dataset, examples = [''q1'']\<rparr>))
   \<and> CorpusSC_init demo_libs demo_fs ''d/tiny.tsv'' ''tiny.tsv'' ''xlm-roberta-base'' False
       = (Inr tiny_sc, demo_fs(''d/tiny.tsv_XLMRobertaTokenizerFast.pickle''
                                 \<mapsto> Pickled (data_sc tiny_sc)))
   \<and> map fst (data_sc tiny_sc)
       = [''input_ids'', ''token_type_ids'', ''attention_mask'', ''label'']"
proof -
  have qa_miss: "demo_fs (cached_features_file (demo_tokenizer False) (''d'' @ ''/'' @ ''train.json''))
                   = None"
    using demo_train_miss by simp
  have qa_run: "preprocess_qa demo_libs (demo_tokenizer False) 384 128 64 demo_fs
                  (''d'' @ ''/'' @ ''train.json'') False
                = (Inr (demo_dataset, [''q1''], [0]),
                   demo_fs(cached_features_file (demo_tokenizer False) ''d/train.json'' \<mapsto>
                     TorchSaved \<lparr>features = [0], dataset = demo_dataset,
                                 examples = [''q1'']\<rparr>))"
    using demo_train_preprocess by simp
  have name: "CHR ''/'' \<notin> set ''train.json''"
    by simp
  have dir: "''d'' \<noteq> []" "last ''d'' \<noteq> CHR ''/''"
    by simp_all
  have sc_run: "CorpusSC_init demo_libs demo_fs ''d/tiny.tsv'' ''tiny.tsv'' ''xlm-roberta-base''
                  False
                = (Inr tiny_sc, demo_fs(cached_data_file ''d/tiny.tsv'' (demo_tokenizer True)
                                          \<mapsto> Pickled (data_sc tiny_sc)))"
    using demo_tiny_init by simp
  from cache_entries_written_on_miss
         [where fsq = demo_fs and fss = demo_fs and dir = "''d''" and name = "''train.json''"
            and path = "''d/tiny.tsv''",
          OF qa_miss qa_run name dir demo_sc_tok demo_tiny_miss sc_run]
  have r: "demo_fs(cached_features_file (demo_tokenizer False) ''d/train.json'' \<mapsto>
             TorchSaved \<lparr>features = [0], dataset = demo_dataset, examples = [''q1'']\<rparr>)
           = demo_fs(''d'' @ ''/cached_'' @ class_name (demo_tokenizer False) @ ''_''
                       @ ''train.json'' \<mapsto>
               TorchSaved \<lparr>features = [0], dataset = demo_dataset, examples = [''q1'']\<rparr>)"
    "demo_fs(cached_data_file ''d/tiny.tsv'' (demo_tokenizer True)
               \<mapsto> Pickled (data_sc tiny_sc))
     = demo_fs(''d/tiny.tsv'' @ ''_'' @ class_name (demo_tokenizer True) @ ''.pickle''
                 \<mapsto> Pickled (data_sc tiny_sc))"
    "map fst (data_sc tiny_sc)
       = [''input_ids'', ''token_type_ids'', ''attention_mask'', ''label'']"
    by simp_all
  have q: "''d'' @ ''/cached_'' @ class_name (demo_tokenizer False) @ ''_'' @ ''train.json''
             = ''d/cached_XLMRobertaTokenizer_train.json''"
    by (simp add: demo_tokenizer_def)
  have c: "''d/tiny.tsv'' @ ''_'' @ class_name (demo_tokenizer True) @ ''.pickle''
             = ''d/tiny.tsv_XLMRobertaTokenizerFast.pickle''"
    by (simp add: demo_tokenizer_def)
  show ?thesis
    using demo_train_preprocess sc_run r unfolding q c by simp
qed

section \<open>Construction from an existing cache entry\<close>

lemma CorpusQA_first_run:
  assumes tok: "from_pretrained L mname
                  \<lparr>do_lower_case = False, use_fast = Some False, local_files_only = lfo\<rparr>
                = Inr tok"
    and miss: "fs (cached_features_file tok path) = None"
    and first: "CorpusQA_init L fs path evaluate mname lfo = (Inr q, fs1)"
  shows "fs1 = fs(cached_features_file tok path \<mapsto>
                    TorchSaved \<lparr>features = features_qa q, dataset = dataset_qa q,
                                examples = examples_qa q\<rparr>)
         \<and> build_data (dataset_qa q) (enumerate 0 qa_keys) = Inr (data_qa q)
         \<and> q = \<lparr>doc_stride = 128, max_query_len = 64, max_seq_len = 384,
                  model_name = mname, tokenizer_qa = tok, dataset_qa = dataset_qa q,
                  examples_qa = examples_qa q, features_qa = features_qa q,
                  data_qa = data_qa q\<rparr>"
proof -
  from CorpusQA_init_Inr [OF tok first] obtain d where
    pre: "preprocess_qa L tok 384 128 64 fs path evaluate
            = (Inr (dataset_qa q, examples_qa q, features_qa q), fs1)"
    and built: "build_data (dataset_qa q) (enumerate 0 qa_keys) = Inr d"
    and q: "q = \<lparr>doc_stride = 128, max_query_len = 64, max_seq_len = 384,
                  model_name = mname, tokenizer_qa = tok, dataset_qa = dataset_qa q,
                  examples_qa = examples_qa q, features_qa = features_qa q, data_qa = d\<rparr>"
    by blast
  have d: "d = data_qa q"
    by (subst q) simp
  from preprocess_qa_miss_Inr [where fs = fs and path = path, OF miss pre]
  have "fs1 = fs(cached_features_file tok path \<mapsto>
                   TorchSaved \<lparr>features = features_qa q, dataset = dataset_qa q,
                               examples = examples_qa q\<rparr>)"
    by simp
  with built q show ?thesis
    unfolding d by simp
qed

lemma CorpusQA_second_run:
  assumes tok: "from_pretrained L mname
                  \<lparr>do_lower_case = False, use_fast = Some False, local_files_only = lfo\<rparr>
                = Inr tok"
    and miss: "fs (cached_features_file tok path) = None"
    and first: "CorpusQA_init L fs path evaluate mname lfo = (Inr q, fs1)"
    and tok': "from_pretrained L' mname
                  \<lparr>do_lower_case = False, use_fast = Some False, local_files_only = lfo\<rparr>
                = Inr tok"
    and cached: "fsh (cached_features_file tok path) = fs1 (cached_features_file tok path)"
  shows "CorpusQA_init L' fsh path evaluate' mname lfo = (Inr q, fsh)"
proof -
  let ?b = "\<lparr>features = features_qa q, dataset = dataset_qa q, examples = examples_qa q\<rparr>"
  from CorpusQA_first_run [where fs = fs and path = path, OF tok miss first]
  have fs1: "fs1 = fs(cached_features_file tok path \<mapsto> TorchSaved ?b)"
    and built: "build_data (dataset_qa q) (enumerate 0 qa_keys) = Inr (data_qa q)"
    and q: "q = \<lparr>doc_stride = 128, max_query_len = 64, max_seq_len = 384,
                  model_name = mname, tokenizer_qa = tok, dataset_qa = dataset_qa q,
                  examples_qa = examples_qa q, features_qa = features_qa q,
                  data_qa = data_qa q\<rparr>"
    by simp_all
  have hit: "fsh (cached_features_file tok path) = Some (TorchSaved ?b)"
    using cached by (simp add: fs1)
  have pre: "preprocess_qa L' tok 384 128 64 fsh path evaluate'
               = (Inr (dataset_qa q, examples_qa q, features_qa q), fsh)"
    using preprocess_qa_hit [where fs = fsh and path = path, OF hit] by simp
  show ?thesis
    unfolding CorpusQA_init_from_preprocess [OF tok' pre] built using q by simp
qed

lemma CorpusSC_second_run:
  assumes tok: "from_pretrained L mname
                  \<lparr>do_lower_case = False, use_fast = None, local_files_only = lfo\<rparr> = Inr tok"
    and miss: "fs (cached_data_file path tok) = None"
    and first: "CorpusSC_init L fs path file mname lfo = (Inr c, fs1)"
    and tok': "from_pretrained L' mname
                  \<lparr>do_lower_case = False, use_fast = None, local_files_only = lfo\<rparr> = Inr tok"
    and cached: "fsh (cached_data_file path tok) = fs1 (cached_data_file path tok)"
  shows "CorpusSC_init L' fsh path file' mname lfo = (Inr c, fsh)"
proof -
  from CorpusSC_init_miss_result [where fs = fs and path = path, OF tok miss first]
  have c: "c = \<lparr>max_sequence_length = 128, tokenizer_sc = tok,
                  label_dict = the_label_dict, data_sc = data_sc c\<rparr>"
    and fs1: "fs1 = fs(cached_data_file path tok \<mapsto> Pickled (data_sc c))"
    by simp_all
  have hit: "fsh (cached_data_file path tok) = Some (Pickled (data_sc c))"
    using cached by (simp add: fs1)
  show ?thesis
    unfolding CorpusSC_init_hit [where fs = fsh and path = path, OF tok' hit] using c by simp
qed

lemma demo_train_init:
  "CorpusQA_init demo_libs demo_fs ''d/train.json'' False ''xlm-roberta-base'' False
     = (Inr demo_qa,
        demo_fs(cached_features_file (demo_tokenizer False) ''d/train.json'' \<mapsto>
                  TorchSaved \<lparr>features = [0], dataset = demo_dataset, examples = [''q1'']\<rparr>))
   \<and> dataset_qa demo_qa = demo_dataset
   \<and> examples_qa demo_qa = [''q1'']
   \<and> features_qa demo_qa = [0]"
proof -
  have rows: "\<forall>t \<in> set demo_dataset. shape0 t = Inr 1"
    by (simp add: demo_dataset_def)
  have five: "5 \<le> length demo_dataset"
    by (simp add: demo_dataset_def)
  note built = build_data_five [OF dataset_slice_all_rows [OF rows] five]
  have init0: "CorpusQA_init demo_libs demo_fs ''d/train.json'' False ''xlm-roberta-base'' False
     = (Inr \<lparr>doc_stride = 128, max_query_len = 64, max_seq_len = 384,
             model_name = ''xlm-roberta-base'', tokenizer_qa = demo_tokenizer False,
             dataset_qa = demo_dataset, examples_qa = [''q1''], features_qa = [0],
             data_qa = [(''input_ids'', demo_dataset ! 0),
                        (''attention_mask'', demo_dataset ! 1),
                        (''token_type_ids'', demo_dataset ! 2),
                        (''answer_start'', demo_dataset ! 3),
                        (''answer_end'', demo_dataset ! 4)]\<rparr>,
        demo_fs(cached_features_file (demo_tokenizer False) ''d/train.json'' \<mapsto>
                  TorchSaved \<lparr>features = [0], dataset = demo_dataset, examples = [''q1'']\<rparr>))"
    unfolding CorpusQA_init_from_preprocess [OF demo_qa_tok demo_train_preprocess] built
    by simp
  show ?thesis
    by (simp add: demo_qa_def init0)
qed

text \<open>
  Claim C7. Round trip of the two construction branches: when a construction takes the
  cache-miss branch and succeeds, a construction for the same source path and tokenizer on
  any file system that holds the cache entry the first one wrote takes the cache-hit branch
  and yields the same object: the same tensors, hence the same \<open>length()\<close> and the same
  value at every index. This holds for CorpusQA and for CorpusSC.
\<close>

theorem cache_hit_yields_the_tensors_of_the_miss:
  assumes qa_tok: "from_pretrained L mname
                     \<lparr>do_lower_case = False, use_fast = Some False, local_files_only = lfo\<rparr>
                   = Inr tokq"
    and qa_miss: "fsq (cached_features_file tokq path) = None"
    and qa_first: "CorpusQA_init L fsq path evaluate mname lfo = (Inr q, fsqm)"
    and qa_cached: "fsqh (cached_features_file tokq path) = fsqm (cached_features_file tokq path)"
    and sc_tok: "from_pretrained L mname
                   \<lparr>do_lower_case = False, use_fast = None, local_files_only = lfo\<rparr>
                 = Inr toks"
    and sc_miss: "fss (cached_data_file p toks) = None"
    and sc_first: "CorpusSC_init L fss p file mname lfo = (Inr c, fssm)"
    and sc_cached: "fssh (cached_data_file p toks) = fssm (cached_data_file p toks)"
  shows "fsqh (cached_features_file tokq path) \<noteq> None
         \<and> (\<exists>q2. fst (CorpusQA_init L fsqh path evaluate mname lfo) = Inr q2
                \<and> q2 = q \<and> dataset_qa q2 = dataset_qa q \<and> data_qa q2 = data_qa q
                \<and> len_qa q2 = len_qa q \<and> (\<forall>i. getitem_qa q2 i = getitem_qa q i))
         \<and> fssh (cached_data_file p toks) \<noteq> None
         \<and> (\<exists>c2. fst (CorpusSC_init L fssh p file mname lfo) = Inr c2
                \<and> c2 = c \<and> data_sc c2 = data_sc c
                \<and> len_sc c2 = len_sc c \<and> (\<forall>i. getitem_sc c2 i = getitem_sc c i))"
proof -
  have "fsqm (cached_features_file tokq path) \<noteq> None"
    using CorpusQA_first_run [where fs = fsq and path = path, OF qa_tok qa_miss qa_first]
    by (metis fun_upd_same option.distinct(1))
  then have hitq: "fsqh (cached_features_file tokq path) \<noteq> None"
    using qa_cached by simp
  have "fssm (cached_data_file p toks) \<noteq> None"
    using CorpusSC_init_miss_result [where fs = fss and path = p, OF sc_tok sc_miss sc_first]
    by (metis fun_upd_same option.distinct(1))
  then have hits: "fssh (cached_data_file p toks) \<noteq> None"
    using sc_cached by simp
  have q2: "fst (CorpusQA_init L fsqh path evaluate mname lfo) = Inr q"
    using CorpusQA_second_run [where fs = fsq and path = path and fsh = fsqh,
                               OF qa_tok qa_miss qa_first qa_tok qa_cached]
    by simp
  have c2: "fst (CorpusSC_init L fssh p file mname lfo) = Inr c"
    using CorpusSC_second_run [where fs = fss and path = p and fsh = fssh,
                               OF sc_tok sc_miss sc_first sc_tok sc_cached]
    by simp
  show ?thesis
    using hitq hits q2 c2 by simp
qed

theorem cache_hit_yields_the_tensors_of_the_miss_witness:
  "(\<exists>q2. fst (CorpusQA_init demo_libs
                   [''d/cached_XLMRobertaTokenizer_train.json'' \<mapsto>
                      TorchSaved \<lparr>features = [0], dataset = demo_dataset,
                                  examples = [''q1'']\<rparr>]
                   ''d/train.json'' False ''xlm-roberta-base'' False) = Inr q2
         \<and> q2 = demo_qa \<and> len_qa q2 = Inr 1)
   \<and> (\<exists>c2. fst (CorpusSC_init demo_libs
                     [''d/tiny.tsv_XLMRobertaTokenizerFast.pickle'' \<mapsto> Pickled tiny_data]
                     ''d/tiny.tsv'' ''tiny.tsv'' ''xlm-roberta-base'' False) = Inr c2
          \<and> c2 = tiny_sc \<and> len_sc c2 = Inr 2)"
proof -
  let ?tq = "demo_tokenizer False" and ?ts = "demo_tokenizer True"
  let ?entry = "TorchSaved \<lparr>features = [0], dataset = demo_dataset, examples = [''q1'']\<rparr>"
  let ?fsqh = "[''d/cached_XLMRobertaTokenizer_train.json'' \<mapsto> ?entry]"
  let ?fssh = "[''d/tiny.tsv_XLMRobertaTokenizerFast.pickle'' \<mapsto> Pickled tiny_data]"
  have qa_first: "CorpusQA_init demo_libs demo_fs ''d/train.json'' False ''xlm-roberta-base''
                    False
                  = (Inr demo_qa, demo_fs(cached_features_file ?tq ''d/train.json'' \<mapsto> ?entry))"
    using demo_train_init by simp
  have qa_cached: "?fsqh (cached_features_file ?tq ''d/train.json'')
                     = (demo_fs(cached_features_file ?tq ''d/train.json'' \<mapsto> ?entry))
                         (cached_features_file ?tq ''d/train.json'')"
    by (simp add: demo_train_path)
  have sc_first: "CorpusSC_init demo_libs demo_fs ''d/tiny.tsv'' ''tiny.tsv''
                    ''xlm-roberta-base'' False
                  = (Inr tiny_sc, demo_fs(cached_data_file ''d/tiny.tsv'' ?ts
                                            \<mapsto> Pickled (data_sc tiny_sc)))"
    using demo_tiny_init by simp
  have data: "data_sc tiny_sc = tiny_data"
    using demo_tiny_init by (metis CorpusSC.select_convs(4))
  have sc_cached: "?fssh (cached_data_file ''d/tiny.tsv'' ?ts)
                     = (demo_fs(cached_data_file ''d/tiny.tsv'' ?ts
                                  \<mapsto> Pickled (data_sc tiny_sc)))
                         (cached_data_file ''d/tiny.tsv'' ?ts)"
    by (simp add: data cached_data_file_def demo_tokenizer_def)
  have lq: "len_qa demo_qa = Inr 1"
    using demo_train_init
    by (simp add: len_qa_def len_dataset_def demo_dataset_def py_index_def)
  have ls: "len_sc tiny_sc = Inr 2"
    by (simp add: len_sc_def data tiny_data_def dict_get_def matrix_def)
  from cache_hit_yields_the_tensors_of_the_miss
         [where fsq = demo_fs and fss = demo_fs and path = "''d/train.json''"
            and p = "''d/tiny.tsv''" and fsqh = ?fsqh and fssh = ?fssh,
          OF demo_qa_tok demo_train_miss qa_first qa_cached
             demo_sc_tok demo_tiny_miss sc_first sc_cached]
  show ?thesis
    using lq ls by auto
qed

text \<open>
  Claim C8. Idempotence of construction: when a dataset (CorpusQA or CorpusSC) is
  constructed from an uncached source and then constructed again on the file system the
  first construction left, the second construction returns the same object, so the same
  value at every index, and leaves the file system as it found it: it reads the cache entry
  the first one wrote and does not rewrite it.
\<close>

theorem constructing_twice_is_idempotent:
  assumes qa_tok: "from_pretrained L mname
                     \<lparr>do_lower_case = False, use_fast = Some False, local_files_only = lfo\<rparr>
                   = Inr tokq"
    and qa_miss: "fsq (cached_features_file tokq path) = None"
    and qa_first: "CorpusQA_init L fsq path evaluate mname lfo = (Inr q, fsqm)"
    and sc_tok: "from_pretrained L mname
                   \<lparr>do_lower_case = False, use_fast = None, local_files_only = lfo\<rparr>
                 = Inr toks"
    and sc_miss: "fss (cached_data_file p toks) = None"
    and sc_first: "CorpusSC_init L fss p file mname lfo = (Inr c, fssm)"
  shows "CorpusQA_init L fsqm path evaluate mname lfo = (Inr q, fsqm)
         \<and> fsqm (cached_features_file tokq path)
             = Some (TorchSaved \<lparr>features = features_qa q, dataset = dataset_qa q,
                                  examples = examples_qa q\<rparr>)
         \<and> CorpusSC_init L fssm p file mname lfo = (Inr c, fssm)
         \<and> fssm (cached_data_file p toks) = Some (Pickled (data_sc c))"
proof -
  have a: "CorpusQA_init L fsqm path evaluate mname lfo = (Inr q, fsqm)"
    by (rule CorpusQA_second_run [where fs = fsq and path = path and fsh = fsqm,
                                  OF qa_tok qa_miss qa_first qa_tok refl])
  have b: "fsqm (cached_features_file tokq path)
             = Some (TorchSaved \<lparr>features = features_qa q, dataset = dataset_qa q,
                                  examples = examples_qa q\<rparr>)"
    using CorpusQA_first_run [where fs = fsq and path = path, OF qa_tok qa_miss qa_first]
    by (metis fun_upd_same)
  have c: "CorpusSC_init L fssm p file mname lfo = (Inr c, fssm)"
    by (rule CorpusSC_second_run [where fs = fss and path = p and fsh = fssm,
                                  OF sc_tok sc_miss sc_first sc_tok refl])
  have d: "fssm (cached_data_file p toks) = Some (Pickled (data_sc c))"
    using CorpusSC_init_miss_result [where fs = fss and path = p, OF sc_tok sc_miss sc_first]
    by (metis fun_upd_same)
  show ?thesis
    using a b c d by simp
qed

theorem constructing_twice_is_idempotent_witness:
  "CorpusQA_init demo_libs
     (demo_fs(''d/cached_XLMRobertaTokenizer_train.json'' \<mapsto>
                TorchSaved \<lparr>features = [0], dataset = demo_dataset, examples = [''q1'']\<rparr>))
     ''d/train.json'' False ''xlm-roberta-base'' False
   = (Inr demo_qa,
      demo_fs(''d/cached_XLMRobertaTokenizer_train.json'' \<mapsto>
                TorchSaved \<lparr>features = [0], dataset = demo_dataset, examples = [''q1'']\<rparr>))
   \<and> CorpusSC_init demo_libs
         (demo_fs(''d/tiny.tsv_XLMRobertaTokenizerFast.pickle'' \<mapsto> Pickled tiny_data))
         ''d/tiny.tsv'' ''tiny.tsv'' ''xlm-roberta-base'' False
       = (Inr tiny_sc,
          demo_fs(''d/tiny.tsv_XLMRobertaTokenizerFast.pickle'' \<mapsto> Pickled tiny_data))"
proof -
  let ?tq = "demo_tokenizer False" and ?ts = "demo_tokenizer True"
  let ?entry = "TorchSaved \<lparr>features = [0], dataset = demo_dataset, examples = [''q1'']\<rparr>"
  have qa_first: "CorpusQA_init demo_libs demo_fs ''d/train.json'' False ''xlm-roberta-base''
                    False
                  = (Inr demo_qa, demo_fs(cached_features_file ?tq ''d/train.json'' \<mapsto> ?entry))"
    using demo_train_init by simp
  have sc_first: "CorpusSC_init demo_libs demo_fs ''d/tiny.tsv'' ''tiny.tsv''
                    ''xlm-roberta-base'' False
                  = (Inr tiny_sc, demo_fs(cached_data_file ''d/tiny.tsv'' ?ts
                                            \<mapsto> Pickled (data_sc tiny_sc)))"
    using demo_tiny_init by simp
  have data: "data_sc tiny_sc = tiny_data"
    using demo_tiny_init by (metis CorpusSC.select_convs(4))
  have pq: "cached_features_file ?tq ''d/train.json'' = ''d/cached_XLMRobertaTokenizer_train.json''"
    by (rule demo_train_path)
  have ps: "cached_data_file ''d/tiny.tsv'' ?ts = ''d/tiny.tsv_XLMRobertaTokenizerFast.pickle''"
    by (simp add: cached_data_file_def demo_tokenizer_def)
  from constructing_twice_is_idempotent
         [where fsq = demo_fs and fss = demo_fs and path = "''d/train.json''"
            and p = "''d/tiny.tsv''",
          OF demo_qa_tok demo_train_miss qa_first demo_sc_tok demo_tiny_miss sc_first]
  show ?thesis
    unfolding pq ps data using demo_train_init by simp
qed

text \<open>
  Claim C10. The path of the QA cache file is computed from the tokenizer's class name and
  the source path alone; the evaluate flag takes no part in it. So after a cache-miss run
  of \<^verbatim>\<open>CorpusQA.preprocess\<close> under one flag, a run for the same source and a tokenizer
  of the same class under any flag takes the cache-hit branch and returns the dataset,
  examples and features produced under the first flag, leaving the file system unchanged,
  whatever the example extraction and the converter would do: they are not run again.
\<close>

theorem qa_cache_ignores_the_evaluate_flag:
  assumes miss: "fs (cached_features_file tok path) = None"
    and first: "preprocess_qa L tok msl ds mql fs path evaluate = (Inr r, fsm)"
    and same_class: "class_name tok' = class_name tok"
  shows "cached_features_file tok' path = cached_features_file tok path
         \<and> fsm (cached_features_file tok' path) \<noteq> None
         \<and> preprocess_qa L' tok' msl' ds' mql' fsm path evaluate' = (Inr r, fsm)"
proof -
  obtain dset exs fts where r: "r = (dset, exs, fts)"
    by (cases r) auto
  have same: "cached_features_file tok' path = cached_features_file tok path"
    by (simp add: cached_features_file_def same_class)
  from preprocess_qa_miss_Inr [where fs = fs and path = path, OF miss first [unfolded r]]
  have fsm: "fsm = fs(cached_features_file tok path \<mapsto>
                        TorchSaved \<lparr>features = fts, dataset = dset, examples = exs\<rparr>)"
    by simp
  then have hit: "fsm (cached_features_file tok' path)
                    = Some (TorchSaved \<lparr>features = fts, dataset = dset, examples = exs\<rparr>)"
    by (simp add: same)
  show ?thesis
    using same hit preprocess_qa_hit [where fs = fsm and path = path, OF hit]
    by (simp add: r)
qed

theorem qa_cache_ignores_the_evaluate_flag_witness:
  "preprocess_qa demo_libs (demo_tokenizer False) 384 128 64
     (demo_fs(''d/cached_XLMRobertaTokenizer_train.json'' \<mapsto>
                TorchSaved \<lparr>features = [0], dataset = demo_dataset, examples = [''q1'']\<rparr>))
     ''d/train.json'' True
   = (Inr (demo_dataset, [''q1''], [0]),
      demo_fs(''d/cached_XLMRobertaTokenizer_train.json'' \<mapsto>
                TorchSaved \<lparr>features = [0], dataset = demo_dataset, examples = [''q1'']\<rparr>))
   \<and> length demo_dataset = 8"
proof -
  have same_class: "class_name (demo_tokenizer False) = class_name (demo_tokenizer False)"
    by simp
  from qa_cache_ignores_the_evaluate_flag
         [where fs = demo_fs and path = "''d/train.json''" and L' = demo_libs
            and msl' = 384 and ds' = 128 and mql' = 64 and evaluate' = True,
          OF demo_train_miss demo_train_preprocess same_class]
  show ?thesis
    unfolding demo_train_path by (simp add: demo_dataset_def)
qed

section \<open>Empty sources\<close>

lemma shape0_zero: "shape0 t = Inr 0 \<Longrightarrow> t = Tensor []"
  by (cases t) auto

lemma len_sc_zero_getitem:
  assumes "len_sc c = Inr 0"
  shows "getitem_sc c i = Inl IndexError"
proof -
  from assms obtain t where t: "dict_get (data_sc c) ''input_ids'' = Inr t" "shape0 t = Inr 0"
    by (auto simp: len_sc_def split: sum.splits)
  from t(2) have "t = Tensor []"
    by (rule shape0_zero)
  with t(1) have "field_at (data_sc c) ''input_ids'' i = Inl IndexError"
    by (simp add: field_at_def py_index_empty)
  then show ?thesis
    by (simp add: getitem_sc_def)
qed

lemma len_qa_zero_getitem:
  assumes "len_qa q = Inr 0"
  shows "getitem_qa q i = Inl IndexError"
proof -
  from assms obtain t where t: "py_index (dataset_qa q) 0 = Inr t" "shape0 t = Inr 0"
    by (auto simp: len_qa_def len_dataset_def split: sum.splits)
  then obtain rest where d: "dataset_qa q = Tensor [] # rest"
    by (cases "dataset_qa q") (auto simp: py_index_def dest: shape0_zero)
  have "dataset_getitem (dataset_qa q) i = Inl IndexError"
    by (simp add: d dataset_getitem_def py_index_empty)
  then have "dataset_at (dataset_qa q) i 0 = Inl IndexError"
    by (simp add: dataset_at_def)
  then show ?thesis
    by (simp add: getitem_qa_def)
qed

text \<open>
  When the collaborators deliver no rows (the reader an empty table and the tokenizer an
  encoding with no rows; the example extraction no examples and the converter a dataset whose
  tensors have no rows), the construction succeeds with a dataset of length 0.
\<close>

lemma zero_rows_give_length_zero:
  assumes sc_tok: "from_pretrained L mname
                     \<lparr>do_lower_case = False, use_fast = None, local_files_only = lfo\<rparr>
                   = Inr toks"
    and sc_miss: "fss (cached_data_file p toks) = None"
    and sc_rows: "read_csv L fss p = Inr []"
    and sc_enc: "call toks (sc_call_args 128) [] [] = Inr ids"
    and sc_zero: "shape0 (input_ids ids) = Inr 0"
    and qa_tok: "from_pretrained L mname
                   \<lparr>do_lower_case = False, use_fast = Some False, local_files_only = lfo\<rparr>
                 = Inr tokq"
    and qa_miss: "fsq (cached_features_file tokq path) = None"
    and qa_extracted: "(if evaluate then get_dev_examples L fsq (data_dir path) (filename path)
                        else get_train_examples L fsq (data_dir path) (filename path)) = Inr []"
    and qa_converted: "squad_convert_examples_to_features L [] tokq
                         \<lparr>max_seq_length = 384, doc_stride_arg = 128, max_query_length = 64,
                          is_training = (\<not> evaluate), return_dataset = ''pt'', threads = 1\<rparr>
                       = Inr (fts, dset)"
    and qa_five: "5 \<le> length dset"
    and qa_zero: "\<forall>t \<in> set dset. shape0 t = Inr 0"
  shows "(\<exists>c fss'. CorpusSC_init L fss p file mname lfo = (Inr c, fss')
            \<and> len_sc c = Inr 0 \<and> getitem_sc c 0 = Inl IndexError)
         \<and> (\<exists>q fsq'. CorpusQA_init L fsq path evaluate mname lfo = (Inr q, fsq')
              \<and> len_qa q = Inr 0 \<and> getitem_qa q 0 = Inl IndexError)"
proof -
  define d where "d = [(''input_ids'', input_ids ids),
                       (''token_type_ids'', attention_mask ids),
                       (''attention_mask'', token_type_ids ids),
                       (''label'', Tensor [])]"
  define c where "c = \<lparr>max_sequence_length = 128, tokenizer_sc = toks,
                          label_dict = the_label_dict, data_sc = d\<rparr>"
  have "preprocess_sc L toks 128 the_label_dict fss p file = Inr d"
    using sc_enc by (simp add: preprocess_sc_def sc_rows map_labels_def d_def)
  then have sc_init: "CorpusSC_init L fss p file mname lfo
                        = (Inr c, fss(cached_data_file p toks \<mapsto> Pickled d))"
    by (simp add: CorpusSC_init_miss [where fs = fss and path = p, OF sc_tok sc_miss] c_def)
  have sc_len: "len_sc c = Inr 0"
    by (simp add: len_sc_def c_def d_def dict_get_def sc_zero)
  note sc_item = len_sc_zero_getitem [OF sc_len, of 0]
  define d' where "d' = [(''input_ids'', dset ! 0), (''attention_mask'', dset ! 1),
                        (''token_type_ids'', dset ! 2), (''answer_start'', dset ! 3),
                        (''answer_end'', dset ! 4)]"
  define q :: "('a, 'b) CorpusQA" where
    "q = \<lparr>doc_stride = 128, max_query_len = 64, max_seq_len = 384,
           model_name = mname, tokenizer_qa = tokq, dataset_qa = dset,
           examples_qa = [], features_qa = fts, data_qa = d'\<rparr>"
  note pre = preprocess_qa_miss [where fs = fsq and path = path,
                                 OF qa_miss qa_extracted qa_converted]
  have built: "build_data dset (enumerate 0 qa_keys) = Inr d'"
    unfolding d'_def by (rule build_data_five [OF dataset_slice_all_rows [OF qa_zero] qa_five])
  have qa_init: "CorpusQA_init L fsq path evaluate mname lfo
                   = (Inr q, fsq(cached_features_file tokq path \<mapsto>
                        TorchSaved \<lparr>features = fts, dataset = dset, examples = []\<rparr>))"
    by (simp add: CorpusQA_init_from_preprocess [OF qa_tok pre] built q_def)
  obtain t0 where t0: "py_index dset 0 = Inr t0" "t0 \<in> set dset"
    using qa_five py_index_nat [of 0 dset] by (cases dset) auto
  have qa_len: "len_qa q = Inr 0"
    using t0 qa_zero by (simp add: len_qa_def len_dataset_def q_def)
  note qa_item = len_qa_zero_getitem [OF qa_len, of 0]
  show ?thesis
    using sc_init sc_len sc_item qa_init qa_len qa_item by blast
qed

lemma CorpusSC_init_tokenizer_raises:
  assumes tok: "from_pretrained L mname
                  \<lparr>do_lower_case = False, use_fast = None, local_files_only = lfo\<rparr> = Inr tok"
    and miss: "fs (cached_data_file path tok) = None"
    and rows: "read_csv L fs path = Inr df"
    and raises: "call tok (sc_call_args 128) (map fst df) (map (\<lambda>r. fst (snd r)) df) = Inl e"
  shows "CorpusSC_init L fs path file mname lfo = (Inl e, fs)"
proof -
  have "preprocess_sc L tok 128 the_label_dict fs path file = Inl e"
    using rows raises by (simp add: preprocess_sc_def)
  then show ?thesis
    by (simp add: CorpusSC_init_miss [where fs = fs and path = path, OF tok miss])
qed

lemma CorpusQA_init_extraction_raises:
  assumes tok: "from_pretrained L mname
                  \<lparr>do_lower_case = False, use_fast = Some False, local_files_only = lfo\<rparr>
                = Inr tok"
    and miss: "fs (cached_features_file tok path) = None"
    and raises: "(if evaluate then get_dev_examples L fs (data_dir path) (filename path)
                  else get_train_examples L fs (data_dir path) (filename path)) = Inl e"
  shows "CorpusQA_init L fs path evaluate mname lfo = (Inl e, fs)"
proof -
  have "preprocess_qa L tok 384 128 64 fs path evaluate = (Inl e, fs)"
    using miss raises by (simp add: preprocess_qa_def)
  then show ?thesis
    using tok by (simp add: CorpusQA_init_def)
qed

lemma strict_sc_tok:
  "from_pretrained strict_libs ''xlm-roberta-base''
     \<lparr>do_lower_case = False, use_fast = None, local_files_only = False\<rparr>
   = Inr (strict_tokenizer True)"
  by (simp add: strict_libs_def strict_from_pretrained_def)

lemma strict_qa_tok:
  "from_pretrained strict_libs ''xlm-roberta-base''
     \<lparr>do_lower_case = False, use_fast = Some False, local_files_only = False\<rparr>
   = Inr (strict_tokenizer False)"
  by (simp add: strict_libs_def strict_from_pretrained_def)

lemma strict_empty_tsv_miss:
  "demo_fs (cached_data_file ''d/empty.tsv'' (strict_tokenizer True)) = None"
  by (simp add: demo_fs_def cached_data_file_def strict_tokenizer_def demo_tokenizer_def)

lemma strict_empty_json_miss:
  "demo_fs (cached_features_file (strict_tokenizer False) ''d/empty.json'') = None"
proof -
  have "cached_features_file (strict_tokenizer False) ''d/empty.json''
          = ''d/cached_XLMRobertaTokenizer_empty.json''"
    by code_simp
  then show ?thesis
    by (simp add: demo_fs_def)
qed

lemma strict_empty_tsv_rows: "read_csv strict_libs demo_fs ''d/empty.tsv'' = Inr []"
  by code_simp

lemma strict_empty_batch_raises:
  "call (strict_tokenizer True) (sc_call_args 128) (map fst []) (map (\<lambda>r. fst (snd r)) [])
     = Inl IndexError"
  by (simp add: strict_tokenizer_def)

lemma strict_empty_json_raises:
  "(if False
    then get_dev_examples strict_libs demo_fs (data_dir ''d/empty.json'')
           (filename ''d/empty.json'')
    else get_train_examples strict_libs demo_fs (data_dir ''d/empty.json'')
           (filename ''d/empty.json'')) = Inl (LibraryError ''JSONDecodeError'')"
  by code_simp

text \<open>
  Claim C9 as stated fails: constructing from an empty source file does not yield a dataset
  of length 0 when the collaborators raise on the empty input. The files \<open>d/empty.tsv\<close>
  and \<open>d/empty.json\<close> are empty; the reader delivers an empty table, the tokenizer raises
  on the empty batch of pairs, and the SQuAD processor raises on the empty text. Both
  constructions fail with the collaborator's error: there is no dataset whose length could
  be 0, and no cache file is written.
\<close>

theorem empty_source_length_zero_counterexample:
  "demo_fs ''d/empty.tsv'' = Some (Raw [])
   \<and> demo_fs ''d/empty.json'' = Some (Raw [])
   \<and> CorpusSC_init strict_libs demo_fs ''d/empty.tsv'' ''empty.tsv'' ''xlm-roberta-base'' False
       = (Inl IndexError, demo_fs)
   \<and> CorpusQA_init strict_libs demo_fs ''d/empty.json'' False ''xlm-roberta-base'' False
       = (Inl (LibraryError ''JSONDecodeError''), demo_fs)"
proof -
  have files: "demo_fs ''d/empty.tsv'' = Some (Raw [])" "demo_fs ''d/empty.json'' = Some (Raw [])"
    by (simp_all add: demo_fs_def)
  have sc: "CorpusSC_init strict_libs demo_fs ''d/empty.tsv'' ''empty.tsv'' ''xlm-roberta-base''
              False = (Inl IndexError, demo_fs)"
    by (rule CorpusSC_init_tokenizer_raises
               [where fs = demo_fs and path = "''d/empty.tsv''",
                OF strict_sc_tok strict_empty_tsv_miss strict_empty_tsv_rows
                   strict_empty_batch_raises])
  have qa: "CorpusQA_init strict_libs demo_fs ''d/empty.json'' False ''xlm-roberta-base'' False
              = (Inl (LibraryError ''JSONDecodeError''), demo_fs)"
    by (rule CorpusQA_init_extraction_raises
               [where fs = demo_fs and path = "''d/empty.json''",
                OF strict_qa_tok strict_empty_json_miss strict_empty_json_raises])
  show ?thesis
    using files sc qa by simp
qed

text \<open>
  Claim C9, amended. Boundary behaviour on an empty source file: when a collaborator raises
  on the empty input (the tokenizer on the empty batch of pairs that the reader's empty
  table gives, the example extraction on the empty text), the construction fails with that
  error, returns no dataset and leaves the file system as it was, so no cache file is
  written. A dataset whose \<open>length()\<close> is 0, which is what the construction returns when
  the collaborators deliver no rows instead, fails with IndexError on indexed access at
  position 0 (and at every other position) rather than returning a value. This holds for
  CorpusSC and for CorpusQA.
\<close>

theorem empty_source_fails_or_has_no_item:
  assumes sc_tok: "from_pretrained L mname
                     \<lparr>do_lower_case = False, use_fast = None, local_files_only = lfo\<rparr>
                   = Inr toks"
    and sc_miss: "fss (cached_data_file p toks) = None"
    and sc_rows: "read_csv L fss p = Inr []"
    and sc_raises: "call toks (sc_call_args 128) [] [] = Inl e1"
    and qa_tok: "from_pretrained L mname
                   \<lparr>do_lower_case = False, use_fast = Some False, local_files_only = lfo\<rparr>
                 = Inr tokq"
    and qa_miss: "fsq (cached_features_file tokq path) = None"
    and qa_raises: "(if evaluate then get_dev_examples L fsq (data_dir path) (filename path)
                     else get_train_examples L fsq (data_dir path) (filename path)) = Inl e2"
    and sc_empty: "len_sc c = Inr 0"
    and qa_empty: "len_qa q = Inr 0"
  shows "CorpusSC_init L fss p file mname lfo = (Inl e1, fss)
         \<and> CorpusQA_init L fsq path evaluate mname lfo = (Inl e2, fsq)
         \<and> getitem_sc c 0 = Inl IndexError
         \<and> getitem_qa q 0 = Inl IndexError
         \<and> getitem_sc c i = Inl IndexError
         \<and> getitem_qa q i = Inl IndexError"
proof -
  have "call toks (sc_call_args 128) (map fst []) (map (\<lambda>r. fst (snd r)) []) = Inl e1"
    using sc_raises by simp
  note sc = CorpusSC_init_tokenizer_raises
              [where fs = fss and path = p, OF sc_tok sc_miss sc_rows this]
  note qa = CorpusQA_init_extraction_raises
              [where fs = fsq and path = path, OF qa_tok qa_miss qa_raises]
  show ?thesis
    using sc qa len_sc_zero_getitem [OF sc_empty] len_qa_zero_getitem [OF qa_empty]
    by simp
qed

theorem empty_source_fails_or_has_no_item_witness:
  "read_csv strict_libs demo_fs ''d/empty.tsv'' = Inr []
   \<and> call (strict_tokenizer True) (sc_call_args 128) [] [] = Inl IndexError
   \<and> get_train_examples strict_libs demo_fs ''d'' ''empty.json''
       = Inl (LibraryError ''JSONDecodeError'')
   \<and> len_sc empty_sc = Inr 0
   \<and> len_qa empty_qa = Inr 0
   \<and> CorpusSC_init strict_libs demo_fs ''d/empty.tsv'' ''empty.tsv'' ''xlm-roberta-base'' False
       = (Inl IndexError, demo_fs)
   \<and> CorpusQA_init strict_libs demo_fs ''d/empty.json'' False ''xlm-roberta-base'' False
       = (Inl (LibraryError ''JSONDecodeError''), demo_fs)
   \<and> getitem_sc empty_sc 0 = Inl IndexError
   \<and> getitem_qa empty_qa 0 = Inl IndexError"
proof -
  have sc_raises: "call (strict_tokenizer True) (sc_call_args 128) [] [] = Inl IndexError"
    by (simp add: strict_tokenizer_def)
  have ex: "get_train_examples strict_libs demo_fs ''d'' ''empty.json''
              = Inl (LibraryError ''JSONDecodeError'')"
    by code_simp
  have sc_empty: "len_sc empty_sc = Inr 0"
    by (simp add: len_sc_def empty_sc_def dict_get_def)
  have qa_empty: "len_qa empty_qa = Inr 0"
    by (simp add: len_qa_def len_dataset_def empty_qa_def py_index_def)
  from empty_source_fails_or_has_no_item
         [where fss = demo_fs and fsq = demo_fs and p = "''d/empty.tsv''"
            and path = "''d/empty.json''" and i = 0,
          OF strict_sc_tok strict_empty_tsv_miss strict_empty_tsv_rows sc_raises
             strict_qa_tok strict_empty_json_miss strict_empty_json_raises
             sc_empty qa_empty]
  show ?thesis
    using strict_empty_tsv_rows sc_raises ex sc_empty qa_empty by simp
qed

end
